theory Spec2Isabelle
  imports Main "HOL-Library.AList" "HOL-Library.Word"
begin

section \<open>The host client of the SDK (src/classes/ChronicalsClient.ts)\<close>

text \<open>
  The theory embeds the class \<^verbatim>\<open>ChronicalsClient\<close>: its constructor, the outer
  \<^verbatim>\<open>#send\<close> with its retry loop, the three resend engines, the handlers of the
  inbound RPC methods, the page-send coalescing of \<^verbatim>\<open>OPEN_PAGE\<close>, host
  initialisation and \<^verbatim>\<open>#sendLog\<close>.

  Conventions. A JavaScript \<^verbatim>\<open>number\<close> that holds a count or a duration in
  milliseconds is an \<open>int\<close>; an optional property is an \<open>option\<close>. A
  \<^verbatim>\<open>Map<string, V>\<close> is an association list in insertion order
  (\<open>AList.update\<close> is \<^verbatim>\<open>set\<close>, \<open>AList.delete\<close> is
  \<^verbatim>\<open>delete\<close>, \<open>map_of\<close> is \<^verbatim>\<open>get\<close>); a
  \<^verbatim>\<open>Set<string>\<close> that is only tested for membership is a \<open>set\<close>.
  A rejected promise or a \<^verbatim>\<open>throw\<close> is the \<open>Inl\<close> of a sum.
  Calls to the logger are not modelled; they have no effect on the state.
\<close>

subsection \<open>Errors\<close>

text \<open>
  \<^verbatim>\<open>IOError\<close>, \<^verbatim>\<open>TimeoutError\<close> and \<^verbatim>\<open>NotConnectedError\<close> are imported
  classes; the client tells them apart with \<^verbatim>\<open>instanceof\<close> and reads
  \<^verbatim>\<open>err.kind\<close> of an \<^verbatim>\<open>IOError\<close>. \<open>OTHER_KIND\<close> stands for every
  kind the client never names.
\<close>

datatype io_error_kind = CANCELED | TRANSACTION_CLOSED | RENDER_ERROR | OTHER_KIND

datatype error =
    TimeoutError
  | NotConnectedError
  | IOError io_error_kind
  | ChronicalsError string
  | Error string

subsection \<open>Configuration and the constructor\<close>

text \<open>
  The part of \<^verbatim>\<open>InternalConfig\<close> the constructor and the handlers read.
  \<open>getClientHandlers\<close> and \<open>setHostHandlers\<close> record whether the property is
  defined (the browser demo mode).
\<close>

record internal_config =
  config_retryIntervalMs :: "int option"
  config_pingIntervalMs :: "int option"
  config_closeUnresponsiveConnectionTimeoutMs :: "int option"
  config_reinitializeBatchTimeoutMs :: "int option"
  config_completeHttpRequestDelayMs :: "int option"
  config_maxResendAttempts :: "int option"
  getClientHandlers :: bool
  setHostHandlers :: bool

text \<open>
  \<^verbatim>\<open>if (config.x && config.x > 0) this.#x = config.x\<close>: the field keeps its
  initialiser unless the configured number is truthy (defined and not \<open>0\<close>) and
  positive.
\<close>

definition truthy_number :: "int option \<Rightarrow> bool" where
  "truthy_number x = (case x of None \<Rightarrow> False | Some n \<Rightarrow> n \<noteq> 0)"

definition configured :: "int option \<Rightarrow> int \<Rightarrow> int" where
  "configured x initial =
     (case x of
        None \<Rightarrow> initial
      | Some n \<Rightarrow> if truthy_number x \<and> n > 0 then n else initial)"

datatype loading_state =
  LoadingState (label: "string option") (description: "string option") (itemsInQueue: "int option")

text \<open>
  Of an \<^verbatim>\<open>IOClient\<close> (an imported class) the client reads only
  \<^verbatim>\<open>inlineActionKeys\<close>.
\<close>

record io_client =
  inlineActionKeys :: "string list"

record action_definition =
  groupSlug :: "string option"
  slug :: string

type_synonym key = string

type_synonym handler = nat

record client =
  completeHttpRequestDelayMs :: int
  completeShutdownDelayMs :: int
  retryIntervalMs :: int
  maxResendAttempts :: int
  pingIntervalMs :: int
  closeUnresponsiveConnectionTimeoutMs :: int
  reinitializeBatchTimeoutMs :: int
  intentionallyClosed :: bool
  resolveShutdown :: bool
  config :: internal_config
  actionDefinitions :: "action_definition list"
  actionHandlers :: "(string \<times> handler) list"
  pageHandlers :: "(string \<times> handler) list"
  organization :: "(string \<times> string) option"
  environment :: "string option"
  ioClients :: "(key \<times> io_client) list"
  ioResponseHandlers :: "(key \<times> io_client) list"
  pendingIOCalls :: "(key \<times> string) list"
  openPages :: "key set"
  pendingPageLayouts :: "(key \<times> string) list"
  transactionLoadingStates :: "(key \<times> loading_state) list"
  ws :: "bool option"
  serverRpc :: bool
  isInitialized :: bool
  isReconnecting :: bool
  requestId :: "string option"

text \<open>
  The constructor. \<open>resolveShutdown\<close> records whether \<^verbatim>\<open>#resolveShutdown\<close>
  is defined, \<open>ws\<close> is \<^verbatim>\<open>#ws\<close> with the socket's \<^verbatim>\<open>isOpen\<close>,
  \<open>serverRpc\<close> whether \<^verbatim>\<open>#serverRpc\<close> is defined, and \<open>requestId\<close> the
  parameter of \<^verbatim>\<open>#createRPCHandlers\<close> the handlers close over. The values of
  \<open>ioResponseHandlers\<close> are the clients whose \<^verbatim>\<open>onResponse\<close> is bound.
\<close>

definition new_client :: "internal_config \<Rightarrow> client" where
  "new_client cfg =
     \<lparr> completeHttpRequestDelayMs = configured (config_completeHttpRequestDelayMs cfg) 3000,
       completeShutdownDelayMs = 3000,
       retryIntervalMs = configured (config_retryIntervalMs cfg) 3000,
       maxResendAttempts = configured (config_maxResendAttempts cfg) 10,
       pingIntervalMs = configured (config_pingIntervalMs cfg) 30000,
       closeUnresponsiveConnectionTimeoutMs =
         configured (config_closeUnresponsiveConnectionTimeoutMs cfg) (3 * 60 * 1000),
       reinitializeBatchTimeoutMs = configured (config_reinitializeBatchTimeoutMs cfg) 200,
       intentionallyClosed = False,
       resolveShutdown = False,
       config = cfg,
       actionDefinitions = [],
       actionHandlers = [],
       pageHandlers = [],
       organization = None,
       environment = None,
       ioClients = [],
       ioResponseHandlers = [],
       pendingIOCalls = [],
       openPages = {},
       pendingPageLayouts = [],
       transactionLoadingStates = [],
       ws = None,
       serverRpc = False,
       isInitialized = False,
       isReconnecting = False,
       requestId = None \<rparr>"

text \<open>A setting is ignored when it is absent, zero or negative.\<close>

definition ignored :: "int option \<Rightarrow> bool" where
  "ignored x = (case x of None \<Rightarrow> True | Some n \<Rightarrow> n \<le> 0)"

subsection \<open>The outer send (\<^verbatim>\<open>#send\<close>)\<close>

text \<open>
  What a call of \<^verbatim>\<open>#send\<close> does, in order: \<open>Rpc_send n\<close> is a call of
  \<^verbatim>\<open>serverRpc.send(methodName, inputs, {timeoutFactor: n})\<close>;
  \<open>Sleep_not_awaited ms\<close> is a call \<^verbatim>\<open>sleep(ms)\<close> whose promise is dropped,
  so the caller goes on at once; \<open>Sleep_awaited ms\<close> is \<^verbatim>\<open>await sleep(ms)\<close>,
  which suspends the caller for \<open>ms\<close> milliseconds.
\<close>

datatype send_event = Rpc_send int | Sleep_not_awaited int | Sleep_awaited int

text \<open>
  The peer is a parameter: \<open>rpc n\<close> is how the attempt with
  \<^verbatim>\<open>timeoutFactor\<close> \<open>n\<close> ends, with the response or with the error thrown.
  The loop \<^verbatim>\<open>for (attemptNumber = 1; attemptNumber <= maxResendAttempts; attemptNumber++)\<close>
  is the recursion on \<open>attemptNumber\<close>.
\<close>

function send_from :: "client \<Rightarrow> (int \<Rightarrow> error + 'r) \<Rightarrow> int \<Rightarrow> send_event list \<times> (error + 'r)" where
  "send_from c rpc attemptNumber =
     (if attemptNumber \<le> maxResendAttempts c then
        (case rpc attemptNumber of
           Inr r \<Rightarrow> ([Rpc_send attemptNumber], Inr r)
         | Inl err \<Rightarrow>
             (let sleepTimeBeforeRetrying = retryIntervalMs c * attemptNumber in
              if err = TimeoutError then
                (case send_from c rpc (attemptNumber + 1) of
                   (events, result) \<Rightarrow>
                     (Rpc_send attemptNumber # Sleep_not_awaited sleepTimeBeforeRetrying # events,
                      result))
              else ([Rpc_send attemptNumber], Inl err)))
      else ([], Inl (ChronicalsError ''Maximum failed resend attempts reached, aborting.'')))"
  by pat_completeness auto
termination
  by (relation "measure (\<lambda>(c, rpc, n). nat (maxResendAttempts c + 1 - n))") auto

declare send_from.simps [simp del]

definition send :: "client \<Rightarrow> (int \<Rightarrow> error + 'r) \<Rightarrow> send_event list \<times> (error + 'r)" where
  "send c rpc =
     (if \<not> serverRpc c then ([], Inl (ChronicalsError ''serverRpc not initialized''))
      else send_from c rpc 1)"

text \<open>The time a caller has spent suspended in awaited sleeps.\<close>

fun waited :: "send_event list \<Rightarrow> int" where
  "waited [] = 0"
| "waited (Sleep_awaited ms # events) = ms + waited events"
| "waited (_ # events) = waited events"

text \<open>The \<^verbatim>\<open>timeoutFactor\<close>s of the attempts, in order.\<close>

fun attempts :: "send_event list \<Rightarrow> int list" where
  "attempts [] = []"
| "attempts (Rpc_send n # events) = n # attempts events"
| "attempts (_ # events) = attempts events"

subsection \<open>The resend engines\<close>

text \<open>
  The response of \<^verbatim>\<open>SEND_IO_CALL\<close>, \<^verbatim>\<open>SEND_PAGE\<close> and
  \<^verbatim>\<open>SEND_LOADING_CALL\<close> as the client tests it: \<open>Falsy\<close> when
  \<^verbatim>\<open>!response\<close> holds, \<open>Error_response\<close> an object whose
  \<^verbatim>\<open>type\<close> is \<^verbatim>\<open>'ERROR'\<close> (with its optional message), \<open>Success\<close>
  every other response.
\<close>

datatype response = Falsy | Success | Error_response "string option"

definition is_error_response :: "response \<Rightarrow> bool" where
  "is_error_response r = (case r of Error_response _ \<Rightarrow> True | _ \<Rightarrow> False)"

definition isConnected :: "client \<Rightarrow> bool" where
  "isConnected c = (case ws c of Some isOpen \<Rightarrow> isOpen | None \<Rightarrow> False)"

text \<open>\<^verbatim>\<open>new Map(entries)\<close>: later entries of a key replace its value in place.\<close>

definition new_Map :: "(key \<times> 'v) list \<Rightarrow> (key \<times> 'v) list" where
  "new_Map entries = foldl (\<lambda>m (k, v). AList.update k v m) [] entries"

text \<open>
  The entries to resend: a copy of the pending map, or, for a list of ids, the ids with
  a truthy pending value.
\<close>

definition toResend_of :: "('v \<Rightarrow> bool) \<Rightarrow> key list option \<Rightarrow> (key \<times> 'v) list \<Rightarrow> (key \<times> 'v) list" where
  "toResend_of truthy resendTo pending =
     (case resendTo of
        Some ids \<Rightarrow>
          new_Map (List.map_filter
            (\<lambda>id. case map_of pending id of
                     Some state \<Rightarrow> if truthy state then Some (id, state) else None
                   | None \<Rightarrow> None) ids)
      | None \<Rightarrow> new_Map pending)"

text \<open>
  The state of an engine is the pair of \<^verbatim>\<open>toResend\<close> and the pending map of the
  client. The peer is \<open>rpc attemptNumber id\<close>: how the attempts of the send for \<open>id\<close>
  in the round \<open>attemptNumber\<close> end.
\<close>

type_synonym 'v resend_state = "(key \<times> 'v) list \<times> (key \<times> 'v) list"

text \<open>
  The outcomes of a resent \<^verbatim>\<open>SEND_IO_CALL\<close> after which the engine deletes the
  entry from the pending map: an unsuccessful response (falsy, or of type
  \<^verbatim>\<open>'ERROR'\<close>) and an \<^verbatim>\<open>IOError\<close> of kind \<^verbatim>\<open>CANCELED\<close> or
  \<^verbatim>\<open>TRANSACTION_CLOSED\<close>. The outcomes after which it keeps the entry in
  \<^verbatim>\<open>toResend\<close> for the next round are the other errors.
\<close>

definition io_terminal :: "error + response \<Rightarrow> bool" where
  "io_terminal result =
     (case result of
        Inr response \<Rightarrow> response = Falsy \<or> is_error_response response
      | Inl err \<Rightarrow>
          (case err of
             IOError kind \<Rightarrow> kind = CANCELED \<or> kind = TRANSACTION_CLOSED
           | _ \<Rightarrow> False))"

definition retried :: "error + response \<Rightarrow> bool" where
  "retried result =
     (case result of
        Inr response \<Rightarrow> False
      | Inl err \<Rightarrow>
          (case err of
             IOError kind \<Rightarrow> \<not> (kind = CANCELED \<or> kind = TRANSACTION_CLOSED)
           | _ \<Rightarrow> True))"

text \<open>
  The callbacks \<^verbatim>\<open>.then\<close> and \<^verbatim>\<open>.catch\<close> of one entry, in each of the
  three engines.
\<close>

definition resend_io_entry ::
  "client \<Rightarrow> (int \<Rightarrow> key \<Rightarrow> int \<Rightarrow> error + response) \<Rightarrow> int \<Rightarrow> string resend_state \<Rightarrow> key \<times> string
    \<Rightarrow> string resend_state" where
  "resend_io_entry c rpc attemptNumber st entry =
     (case st of (toResend, pending) \<Rightarrow>
      case entry of (transactionId, ioCall) \<Rightarrow>
        (case snd (send c (rpc attemptNumber transactionId)) of
           Inr response \<Rightarrow>
             (AList.delete transactionId toResend,
              if response = Falsy \<or> is_error_response response
              then AList.delete transactionId pending else pending)
         | Inl err \<Rightarrow>
             (case err of
                IOError kind \<Rightarrow>
                  if kind = CANCELED \<or> kind = TRANSACTION_CLOSED
                  then (AList.delete transactionId toResend, AList.delete transactionId pending)
                  else (toResend, pending)
              | _ \<Rightarrow> (toResend, pending))))"

definition resend_page_entry ::
  "client \<Rightarrow> (int \<Rightarrow> key \<Rightarrow> int \<Rightarrow> error + response) \<Rightarrow> int \<Rightarrow> string resend_state \<Rightarrow> key \<times> string
    \<Rightarrow> string resend_state" where
  "resend_page_entry c rpc attemptNumber st entry =
     (case st of (toResend, pending) \<Rightarrow>
      case entry of (pageKey, page) \<Rightarrow>
        (case snd (send c (rpc attemptNumber pageKey)) of
           Inr response \<Rightarrow>
             (AList.delete pageKey toResend,
              if response = Falsy then AList.delete pageKey pending else pending)
         | Inl err \<Rightarrow>
             (case err of
                IOError kind \<Rightarrow>
                  if kind = CANCELED \<or> kind = TRANSACTION_CLOSED
                  then (AList.delete pageKey toResend, AList.delete pageKey pending)
                  else (toResend, pending)
              | _ \<Rightarrow> (toResend, pending))))"

text \<open>
  For a loading state the \<^verbatim>\<open>.catch\<close> removes a canceled or closed transaction
  from the pending map only; it stays in \<^verbatim>\<open>toResend\<close>.
\<close>

definition resend_loading_entry ::
  "client \<Rightarrow> (int \<Rightarrow> key \<Rightarrow> int \<Rightarrow> error + response) \<Rightarrow> int \<Rightarrow> loading_state resend_state
    \<Rightarrow> key \<times> loading_state \<Rightarrow> loading_state resend_state" where
  "resend_loading_entry c rpc attemptNumber st entry =
     (case st of (toResend, pending) \<Rightarrow>
      case entry of (transactionId, loadingState) \<Rightarrow>
        (case snd (send c (rpc attemptNumber transactionId)) of
           Inr response \<Rightarrow>
             (AList.delete transactionId toResend,
              if response = Falsy then AList.delete transactionId pending else pending)
         | Inl err \<Rightarrow>
             (case err of
                IOError kind \<Rightarrow>
                  if kind = CANCELED \<or> kind = TRANSACTION_CLOSED
                  then (toResend, AList.delete transactionId pending)
                  else (toResend, pending)
              | _ \<Rightarrow> (toResend, pending))))"

text \<open>
  One round: \<^verbatim>\<open>Promise.allSettled\<close> over the entries \<^verbatim>\<open>toResend\<close> holds
  when the round starts. The callbacks of an entry touch its own key only, so the order
  in which the sends settle does not change the maps; the fold takes the entries in
  order. The awaited sleep of a failed entry delays the end of the round and changes no
  map.
\<close>

definition resend_round ::
  "('v resend_state \<Rightarrow> key \<times> 'v \<Rightarrow> 'v resend_state) \<Rightarrow> 'v resend_state \<Rightarrow> 'v resend_state" where
  "resend_round each st = foldl each st (fst st)"

text \<open>
  \<^verbatim>\<open>while (toResend.size > 0 && attemptNumber <= this.#maxResendAttempts)\<close>, the
  same loop in the three engines. The result lists the \<open>attemptNumber\<close> of every
  round that ran.
\<close>

function resend_loop ::
  "(int \<Rightarrow> 'v resend_state \<Rightarrow> key \<times> 'v \<Rightarrow> 'v resend_state) \<Rightarrow> int \<Rightarrow> int \<Rightarrow> 'v resend_state
    \<Rightarrow> int list \<times> 'v resend_state" where
  "resend_loop each maxAttempts attemptNumber st =
     (if fst st \<noteq> [] \<and> attemptNumber \<le> maxAttempts then
        (case resend_loop each maxAttempts (attemptNumber + 1)
                (resend_round (each attemptNumber) st) of
           (rounds, st') \<Rightarrow> (attemptNumber # rounds, st'))
      else ([], st))"
  by pat_completeness auto
termination
  by (relation "measure (\<lambda>(each, maxAttempts, n, st). nat (maxAttempts + 1 - n))") auto

declare resend_loop.simps [simp del]

definition resendPendingIOCalls ::
  "client \<Rightarrow> (int \<Rightarrow> key \<Rightarrow> int \<Rightarrow> error + response) \<Rightarrow> key list option \<Rightarrow> int list \<times> client" where
  "resendPendingIOCalls c rpc resendToTransactionIds =
     (if \<not> isConnected c then ([], c)
      else
        (case resend_loop (resend_io_entry c rpc) (maxResendAttempts c) 1
                (toResend_of (\<lambda>state. state \<noteq> []) resendToTransactionIds (pendingIOCalls c),
                 pendingIOCalls c) of
           (rounds, toResend, pending) \<Rightarrow> (rounds, c\<lparr>pendingIOCalls := pending\<rparr>)))"

definition resendPendingPageLayouts ::
  "client \<Rightarrow> (int \<Rightarrow> key \<Rightarrow> int \<Rightarrow> error + response) \<Rightarrow> key list option \<Rightarrow> int list \<times> client" where
  "resendPendingPageLayouts c rpc resendToPageKeys =
     (if \<not> isConnected c then ([], c)
      else
        (case resend_loop (resend_page_entry c rpc) (maxResendAttempts c) 1
                (toResend_of (\<lambda>state. state \<noteq> []) resendToPageKeys (pendingPageLayouts c),
                 pendingPageLayouts c) of
           (rounds, toResend, pending) \<Rightarrow> (rounds, c\<lparr>pendingPageLayouts := pending\<rparr>)))"

text \<open>The engine of the loading states starts \<open>attemptNumber\<close> at \<open>0\<close>.\<close>

definition resendTransactionLoadingStates ::
  "client \<Rightarrow> (int \<Rightarrow> key \<Rightarrow> int \<Rightarrow> error + response) \<Rightarrow> key list option \<Rightarrow> int list \<times> client" where
  "resendTransactionLoadingStates c rpc resendToTransactionIds =
     (if \<not> isConnected c then ([], c)
      else
        (case resend_loop (resend_loading_entry c rpc) (maxResendAttempts c) 0
                (toResend_of (\<lambda>state. True) resendToTransactionIds (transactionLoadingStates c),
                 transactionLoadingStates c) of
           (rounds, toResend, pending) \<Rightarrow> (rounds, c\<lparr>transactionLoadingStates := pending\<rparr>)))"

subsection \<open>The handlers of the inbound RPC methods\<close>

text \<open>
  What a handler does besides changing the maps of the client: it invokes an action or
  page handler, answers the peer, calls \<^verbatim>\<open>#send\<close> or a handler of the demo
  client, delivers an I/O response, or sets a timer.
\<close>

datatype result_status = SUCCESS | FAILURE

datatype open_page_reply = Reply_SUCCESS key | Reply_ERROR string

datatype timer = Resolve_shutdown | Resolve_http_request | Reject_http_request

datatype effect =
    Action_handler_invoked key handler
  | Page_handler_invoked key handler
  | Replied open_page_reply
  | Send_MARK_TRANSACTION_COMPLETE key result_status
  | Demo_TRANSACTION_COMPLETED key result_status
  | Response_delivered key
  | Timer_set timer int

record start_inputs =
  inputs_transactionId :: key
  action_slug :: string
  displayResolvesImmediately :: "bool option"

record open_inputs =
  inputs_pageKey :: key
  page_slug :: string

text \<open>
  \<^verbatim>\<open>setTimeout\<close> of a callback of the single-shot request, set only when the
  handlers were created for a \<^verbatim>\<open>requestId\<close>.
\<close>

definition http_timer :: "client \<Rightarrow> timer \<Rightarrow> effect list" where
  "http_timer c t =
     (case requestId c of
        Some _ \<Rightarrow> [Timer_set t (completeHttpRequestDelayMs c)]
      | None \<Rightarrow> [])"

definition shutdown_timer :: "client \<Rightarrow> effect list" where
  "shutdown_timer c =
     (if resolveShutdown c \<and> ioResponseHandlers c = []
      then [Timer_set Resolve_shutdown (completeShutdownDelayMs c)] else [])"

definition delete_keys :: "string list \<Rightarrow> (string \<times> 'v) list \<Rightarrow> (string \<times> 'v) list" where
  "delete_keys keys m = foldl (\<lambda>m key. AList.delete key m) m keys"

definition closeTransaction :: "client \<Rightarrow> key \<Rightarrow> client \<times> effect list" where
  "closeTransaction c transactionId =
     (let c1 = c\<lparr> pendingIOCalls := AList.delete transactionId (pendingIOCalls c),
                  transactionLoadingStates :=
                    AList.delete transactionId (transactionLoadingStates c),
                  ioResponseHandlers := AList.delete transactionId (ioResponseHandlers c) \<rparr>;
          c2 = (case map_of (ioClients c1) transactionId of
                  Some client \<Rightarrow>
                    c1\<lparr> ioClients := AList.delete transactionId (ioClients c1),
                        actionHandlers :=
                          delete_keys (inlineActionKeys client) (actionHandlers c1) \<rparr>
                | None \<Rightarrow> c1)
      in (c2, shutdown_timer c2))"

text \<open>
  Modelled from the spec: \<^verbatim>\<open>new IOClient(...)\<close> (src/classes/IOClient.ts is
  absent); the handlers pass no \<^verbatim>\<open>onAddInlineAction\<close>, and the spec notes that
  the registration path is not exercised, so a new client holds no inline-action key.
\<close>

definition new_IOClient :: io_client where
  "new_IOClient = \<lparr> inlineActionKeys = [] \<rparr>"

text \<open>
  \<^verbatim>\<open>START_TRANSACTION\<close>: the guards, the registration of the new client and the
  invocation of the action handler. Nothing is awaited in between; the deserialisation
  of the parameters is taken to return.
\<close>

definition START_TRANSACTION :: "client \<Rightarrow> start_inputs \<Rightarrow> client \<times> effect list" where
  "START_TRANSACTION c inputs =
     (if resolveShutdown c then (c, [])
      else if organization c = None then (c, [])
      else if map_of (ioResponseHandlers c) (inputs_transactionId inputs) \<noteq> None then (c, [])
      else
        (case map_of (actionHandlers c) (action_slug inputs) of
           None \<Rightarrow> (c, [])
         | Some actionHandler \<Rightarrow>
             (c\<lparr> ioResponseHandlers :=
                   AList.update (inputs_transactionId inputs) new_IOClient (ioResponseHandlers c),
                 ioClients := AList.update (inputs_transactionId inputs) new_IOClient (ioClients c) \<rparr>,
              [Action_handler_invoked (inputs_transactionId inputs) actionHandler])))"

text \<open>
  \<^verbatim>\<open>IO_RESPONSE\<close>: the argument is the \<^verbatim>\<open>transactionId\<close> of the parsed
  value, \<open>None\<close> when parsing throws (the handler catches and logs).
\<close>

definition IO_RESPONSE :: "client \<Rightarrow> key option \<Rightarrow> client \<times> effect list" where
  "IO_RESPONSE c parsed =
     (case parsed of
        None \<Rightarrow> (c, [])
      | Some transactionId \<Rightarrow>
          (case map_of (ioResponseHandlers c) transactionId of
             None \<Rightarrow> (c, [])
           | Some responseHandler \<Rightarrow> (c, [Response_delivered transactionId])))"

definition CLOSE_TRANSACTION :: "client \<Rightarrow> key \<Rightarrow> client \<times> effect list" where
  "CLOSE_TRANSACTION c transactionId = closeTransaction c transactionId"

text \<open>
  \<^verbatim>\<open>OPEN_PAGE\<close>: the guards, the registration of the page and of its client, the
  invocation of the page handler and the answer. What the closures of the call do
  afterwards is the page session below.
\<close>

definition OPEN_PAGE :: "client \<Rightarrow> open_inputs \<Rightarrow> client \<times> effect list" where
  "OPEN_PAGE c inputs =
     (if resolveShutdown c then (c, [Replied (Reply_ERROR ''Host shutting down.'')])
      else if organization c = None
      then (c, http_timer c Reject_http_request @ [Replied (Reply_ERROR ''No organization defined.'')])
      else
        (case map_of (pageHandlers c) (page_slug inputs) of
           None \<Rightarrow>
             (c, http_timer c Reject_http_request @ [Replied (Reply_ERROR ''No page handler found.'')])
         | Some pageHandler \<Rightarrow>
             (c\<lparr> openPages := insert (inputs_pageKey inputs) (openPages c),
                 ioClients := AList.update (inputs_pageKey inputs) new_IOClient (ioClients c),
                 ioResponseHandlers :=
                   AList.update (inputs_pageKey inputs) new_IOClient (ioResponseHandlers c) \<rparr>,
              [Page_handler_invoked (inputs_pageKey inputs) pageHandler,
               Replied (Reply_SUCCESS (inputs_pageKey inputs))])))"

text \<open>
  \<^verbatim>\<open>CLOSE_PAGE\<close>. \<^verbatim>\<open>client.inlineActionKeys.clear()\<close> empties the key set of
  a client that the same handler removes from \<^verbatim>\<open>#ioClients\<close> and
  \<^verbatim>\<open>#ioResponseHandlers\<close>.
\<close>

definition CLOSE_PAGE :: "client \<Rightarrow> key \<Rightarrow> client \<times> effect list" where
  "CLOSE_PAGE c pageKey =
     (let c1 = c\<lparr> openPages := openPages c - {pageKey} \<rparr>;
          c2 = (case map_of (ioClients c1) pageKey of
                  Some client \<Rightarrow>
                    c1\<lparr> actionHandlers :=
                          delete_keys (inlineActionKeys client) (actionHandlers c1),
                        ioClients := AList.delete pageKey (ioClients c1) \<rparr>
                | None \<Rightarrow> c1);
          c3 = c2\<lparr> pendingPageLayouts := AList.delete pageKey (pendingPageLayouts c2),
                   ioResponseHandlers := AList.delete pageKey (ioResponseHandlers c2),
                   transactionLoadingStates :=
                     AList.delete pageKey (transactionLoadingStates c2) \<rparr>
      in (c3, http_timer c3 Resolve_http_request @ shutdown_timer c3))"

subsection \<open>The I/O of a transaction\<close>

text \<open>
  The \<^verbatim>\<open>send\<close> callback of the transaction's \<^verbatim>\<open>IOClient\<close>
  (\<open>ioCall\<close> is the stringified render instruction). \<open>rendered\<close> is how the
  \<^verbatim>\<open>RENDER\<close> handler of the demo client ends; it is awaited in demo mode only.
\<close>

definition io_send ::
  "client \<Rightarrow> key \<Rightarrow> string \<Rightarrow> (int \<Rightarrow> error + response) \<Rightarrow> error + unit \<Rightarrow> client \<times> (error + unit)" where
  "io_send c transactionId ioCall rpc rendered =
     (let c1 = c\<lparr> pendingIOCalls := AList.update transactionId ioCall (pendingIOCalls c) \<rparr>;
          cleared = c1\<lparr> transactionLoadingStates :=
                       AList.delete transactionId (transactionLoadingStates c1) \<rparr>
      in if getClientHandlers (config c1) then
           (case rendered of Inl err \<Rightarrow> (c1, Inl err) | Inr _ \<Rightarrow> (cleared, Inr ()))
         else
           (case snd (send c1 rpc) of
              Inl err \<Rightarrow> (c1, Inl err)
            | Inr response \<Rightarrow>
                if response = Falsy \<or> is_error_response response
                then (c1, Inl (IOError RENDER_ERROR))
                else (cleared, Inr ())))"

subsection \<open>The completion of an action\<close>

text \<open>
  How the promise of the action handler settles. The first \<^verbatim>\<open>.then\<close> and
  \<^verbatim>\<open>.catch\<close> of \<^verbatim>\<open>handleAction\<close> turn it into the status of the result,
  or rethrow a \<^verbatim>\<open>CANCELED\<close>. The serialisers and the \<^verbatim>\<open>onError\<close> hook
  are taken to return.
\<close>

datatype outcome = Resolved | Rejected error

definition action_result :: "outcome \<Rightarrow> error + result_status" where
  "action_result out =
     (case out of
        Resolved \<Rightarrow> Inr SUCCESS
      | Rejected err \<Rightarrow> if err = IOError CANCELED then Inl err else Inr FAILURE)"

text \<open>
  The second \<^verbatim>\<open>.then\<close> and \<^verbatim>\<open>.catch\<close>: the completion message and the
  timer of the single-shot request. \<open>rpc\<close> is the peer for the send of
  \<^verbatim>\<open>MARK_TRANSACTION_COMPLETE\<close>.
\<close>

definition action_settled ::
  "client \<Rightarrow> start_inputs \<Rightarrow> outcome \<Rightarrow> (int \<Rightarrow> error + response) \<Rightarrow> effect list" where
  "action_settled c inputs out rpc =
     (case action_result out of
        Inl err \<Rightarrow> http_timer c Reject_http_request
      | Inr status \<Rightarrow>
          if getClientHandlers (config c)
          then Demo_TRANSACTION_COMPLETED (inputs_transactionId inputs) status
                 # http_timer c Resolve_http_request
          else Send_MARK_TRANSACTION_COMPLETE (inputs_transactionId inputs) status
                 # (case snd (send c rpc) of
                      Inl err \<Rightarrow> http_timer c Reject_http_request
                    | Inr _ \<Rightarrow> http_timer c Resolve_http_request))"

text \<open>The \<^verbatim>\<open>.finally\<close> of \<^verbatim>\<open>handleAction\<close>.\<close>

definition action_finally :: "client \<Rightarrow> start_inputs \<Rightarrow> client \<times> effect list" where
  "action_finally c inputs =
     (if displayResolvesImmediately inputs = Some True then (c, [])
      else closeTransaction c (inputs_transactionId inputs))"

subsection \<open>Runs of the client\<close>

text \<open>
  The client is single-threaded: between two suspension points one of these steps runs
  to its end. A run is a sequence of inbound calls, of settlements of action handlers
  and of their final callbacks.
\<close>

datatype event =
    Start start_inputs
  | Io_response "key option"
  | Close_transaction key
  | Open_page open_inputs
  | Close_page key
  | Action_settled start_inputs outcome "int \<Rightarrow> error + response"
  | Action_finally start_inputs

fun step :: "client \<Rightarrow> event \<Rightarrow> client \<times> effect list" where
  "step c (Start inputs) = START_TRANSACTION c inputs"
| "step c (Io_response parsed) = IO_RESPONSE c parsed"
| "step c (Close_transaction transactionId) = CLOSE_TRANSACTION c transactionId"
| "step c (Open_page inputs) = OPEN_PAGE c inputs"
| "step c (Close_page pageKey) = CLOSE_PAGE c pageKey"
| "step c (Action_settled inputs out rpc) = (c, action_settled c inputs out rpc)"
| "step c (Action_finally inputs) = action_finally c inputs"

fun run :: "client \<Rightarrow> event list \<Rightarrow> client \<times> effect list" where
  "run c [] = (c, [])"
| "run c (e # es) =
     (case step c e of (c1, effects1) \<Rightarrow>
      case run c1 es of (c2, effects2) \<Rightarrow> (c2, effects1 @ effects2))"



definition handler_invocation :: "effect \<Rightarrow> bool" where
  "handler_invocation e =
     (case e of
        Action_handler_invoked _ _ \<Rightarrow> True
      | Page_handler_invoked _ _ \<Rightarrow> True
      | _ \<Rightarrow> False)"

definition success_reply :: "effect \<Rightarrow> bool" where
  "success_reply e = (case e of Replied (Reply_SUCCESS _) \<Rightarrow> True | _ \<Rightarrow> False)"


text \<open>The inline-action keys the \<^verbatim>\<open>IOClient\<close> of \<open>t\<close> has registered.\<close>

definition inline_keys_of :: "client \<Rightarrow> key \<Rightarrow> string set" where
  "inline_keys_of c t =
     (case map_of (ioClients c) t of
        Some client \<Rightarrow> set (inlineActionKeys client)
      | None \<Rightarrow> {})"

subsection \<open>Shutdown\<close>

definition immediatelyClose :: "client \<Rightarrow> client" where
  "immediatelyClose c =
     c\<lparr> resolveShutdown := False, intentionallyClosed := True, serverRpc := False, ws := None \<rparr>"

datatype shutdown_response = Shutdown_success | Shutdown_error "string option"

text \<open>
  \<^verbatim>\<open>safelyClose\<close> up to the point where it returns or starts to wait: it sends
  \<^verbatim>\<open>BEGIN_HOST_SHUTDOWN\<close>, and with handlers left it sets
  \<^verbatim>\<open>#resolveShutdown\<close> and waits for them to drain.
\<close>

datatype closing = Closed | Waiting_to_drain

definition safelyClose ::
  "client \<Rightarrow> (int \<Rightarrow> error + shutdown_response) \<Rightarrow> client \<times> (error + closing)" where
  "safelyClose c rpc =
     (case snd (send c rpc) of
        Inl err \<Rightarrow> (c, Inl err)
      | Inr response \<Rightarrow>
          (case response of
             Shutdown_error message \<Rightarrow>
               (c, Inl (ChronicalsError
                  (case message of Some m \<Rightarrow> m
                   | None \<Rightarrow> ''Unknown error sending shutdown request.'')))
           | Shutdown_success \<Rightarrow>
               if ioResponseHandlers c = [] then (immediatelyClose c, Inr Closed)
               else (c\<lparr> resolveShutdown := True \<rparr>, Inr Waiting_to_drain)))"

subsection \<open>The page session of \<^verbatim>\<open>OPEN_PAGE\<close>: coalesced sends\<close>











text \<open>
  The attempts of one \<^verbatim>\<open>sendPage()\<close> outside demo mode:
  \<^verbatim>\<open>for (let i = 0; i < MAX_PAGE_RETRIES; i++)\<close>, each attempt a call of
  \<^verbatim>\<open>#send\<close>, each failure followed by an awaited sleep. \<open>rpc i\<close> is the peer
  for the attempt \<open>i\<close>.
\<close>

definition MAX_PAGE_RETRIES :: nat where
  "MAX_PAGE_RETRIES = 5"

function sendPage_from ::
  "client \<Rightarrow> key \<Rightarrow> string option \<Rightarrow> (nat \<Rightarrow> int \<Rightarrow> error + response) \<Rightarrow> nat
    \<Rightarrow> client \<times> send_event list \<times> (error + unit)" where
  "sendPage_from c pageKey page rpc i =
     (if i < MAX_PAGE_RETRIES then
        (let c1 = (case page of
                     Some p \<Rightarrow>
                       if p \<noteq> [] then c\<lparr> pendingPageLayouts :=
                                            AList.update pageKey p (pendingPageLayouts c) \<rparr>
                       else c
                   | None \<Rightarrow> c)
         in case send c1 (rpc i) of
              (events, Inr response) \<Rightarrow> (c1, events, Inr ())
            | (events, Inl err) \<Rightarrow>
                (case sendPage_from c1 pageKey page rpc (i + 1) of
                   (c2, events2, result) \<Rightarrow>
                     (c2, events @ Sleep_awaited (retryIntervalMs c1) # events2, result)))
      else (c, [], Inl (ChronicalsError ''Unsuccessful sending page, max retries exceeded.'')))"
  by pat_completeness auto
termination
  by (relation "measure (\<lambda>(c, pageKey, page, rpc, i). MAX_PAGE_RETRIES - i)") auto

declare sendPage_from.simps [simp del]

subsection \<open>Declaring the host\<close>








subsection \<open>Log lines (\<^verbatim>\<open>#sendLog\<close>)\<close>

text \<open>
  A JavaScript string is a sequence of UTF-16 code units; \<^verbatim>\<open>length\<close> and
  \<^verbatim>\<open>slice\<close> count code units. \<open>js\<close> gives the code units of an ASCII
  literal.
\<close>

type_synonym jsstring = "16 word list"

definition js :: "string \<Rightarrow> jsstring" where
  "js s = map (\<lambda>ch. of_nat (of_char ch)) s"

text \<open>
  An argument of \<^verbatim>\<open>ctx.log\<close>: \<^verbatim>\<open>undefined\<close>, a string, or any other value.
  \<^verbatim>\<open>JSON.stringify(arg, undefined, 2)\<close> is a parameter: it throws, or returns
  \<^verbatim>\<open>undefined\<close> (\<open>None\<close>, for a function or a symbol), or returns the JSON text.
\<close>

datatype 'a arg = Undefined | Str jsstring | Other 'a

definition log_arg :: "('a \<Rightarrow> error + jsstring option) \<Rightarrow> 'a arg \<Rightarrow> error + jsstring option" where
  "log_arg stringify arg =
     (case arg of
        Undefined \<Rightarrow> Inr (Some (js ''undefined''))
      | Str s \<Rightarrow> Inr (Some s)
      | Other v \<Rightarrow> stringify v)"

text \<open>
  The string or \<^verbatim>\<open>undefined\<close> the callback returns for an argument when
  \<^verbatim>\<open>JSON.stringify\<close> does not throw and returns \<open>json v\<close> for a value \<open>v\<close>.
\<close>

definition log_arg_text :: "('a \<Rightarrow> jsstring option) \<Rightarrow> 'a arg \<Rightarrow> jsstring option" where
  "log_arg_text json arg =
     (case arg of
        Undefined \<Rightarrow> Some (js ''undefined'')
      | Str s \<Rightarrow> Some s
      | Other v \<Rightarrow> json v)"

text \<open>\<^verbatim>\<open>Array.prototype.map\<close> with a callback that may throw.\<close>

fun map_args :: "('a \<Rightarrow> error + 'b) \<Rightarrow> 'a list \<Rightarrow> error + 'b list" where
  "map_args f [] = Inr []"
| "map_args f (x # xs) =
     (case f x of
        Inl err \<Rightarrow> Inl err
      | Inr y \<Rightarrow> (case map_args f xs of Inl err \<Rightarrow> Inl err | Inr ys \<Rightarrow> Inr (y # ys)))"

text \<open>
  \<^verbatim>\<open>Array.prototype.join(sep)\<close>: the loop over the index \<open>k\<close> with the result
  \<open>R\<close> so far; an element that is \<^verbatim>\<open>undefined\<close> adds the empty string.
\<close>

definition element_text :: "jsstring option \<Rightarrow> jsstring" where
  "element_text element = (case element of None \<Rightarrow> [] | Some s \<Rightarrow> s)"

fun join_from :: "jsstring \<Rightarrow> jsstring option list \<Rightarrow> nat \<Rightarrow> jsstring \<Rightarrow> jsstring" where
  "join_from sep [] k R = R"
| "join_from sep (element # rest) k R =
     join_from sep rest (k + 1) ((if k > 0 then R @ sep else R) @ element_text element)"

definition join :: "jsstring \<Rightarrow> jsstring option list \<Rightarrow> jsstring" where
  "join sep elements = join_from sep elements 0 []"

definition advisory :: jsstring where
  "advisory =
     js ''...'' @
     js (CHR 0x0A # ''^ Warning: 10k logline character limit reached.'' @
         CHR 0x0A # ''To avoid this error, try separating your data into multiple ctx.log() calls.'')"

datatype log_call = Send_LOG key jsstring int | Demo_LOG key jsstring int

text \<open>
  \<^verbatim>\<open>#sendLog(transactionId, index, ...args)\<close>: the calls it makes (none for an empty
  argument list), or the error \<^verbatim>\<open>JSON.stringify\<close> throws. The timestamp of the
  call is left out. A failure of the send is caught and logged.
\<close>

definition sendLog ::
  "client \<Rightarrow> ('a \<Rightarrow> error + jsstring option) \<Rightarrow> key \<Rightarrow> int \<Rightarrow> 'a arg list \<Rightarrow> error + log_call list" where
  "sendLog c stringify transactionId index args =
     (if args = [] then Inr []
      else
        (case map_args (log_arg stringify) args of
           Inl err \<Rightarrow> Inl err
         | Inr parts \<Rightarrow>
             (let data = join (js '' '') parts;
                  data = (if length data > 10000 then take 10000 data @ advisory else data)
              in if getClientHandlers (config c)
                 then Inr [Demo_LOG transactionId data index]
                 else Inr [Send_LOG transactionId data index])))"

text \<open>
  The log line in the words of the specification: every argument becomes a string
  (\<^verbatim>\<open>undefined\<close> the literal, a string itself, any other value its JSON text
  \<open>json v\<close>, empty when \<^verbatim>\<open>JSON.stringify\<close> returns \<^verbatim>\<open>undefined\<close>),
  the strings are joined with single spaces, and a line of more than 10000 characters
  is cut to its first 10000 with the advisory after them.
\<close>

definition spec_log_part :: "('a \<Rightarrow> jsstring option) \<Rightarrow> 'a arg \<Rightarrow> jsstring" where
  "spec_log_part json arg =
     (case arg of
        Undefined \<Rightarrow> js ''undefined''
      | Str s \<Rightarrow> s
      | Other v \<Rightarrow> (case json v of Some s \<Rightarrow> s | None \<Rightarrow> []))"

fun spec_join_spaces :: "jsstring list \<Rightarrow> jsstring" where
  "spec_join_spaces [] = []"
| "spec_join_spaces [s] = s"
| "spec_join_spaces (s # t # rest) = s @ js '' '' @ spec_join_spaces (t # rest)"

definition spec_truncate :: "jsstring \<Rightarrow> jsstring" where
  "spec_truncate line = (if length line > 10000 then take 10000 line @ advisory else line)"

definition spec_log_line :: "('a \<Rightarrow> jsstring option) \<Rightarrow> 'a arg list \<Rightarrow> jsstring" where
  "spec_log_line json args = spec_truncate (spec_join_spaces (map (spec_log_part json) args))"

subsection \<open>Concrete inputs\<close>

text \<open>A configuration whose six timing and retry settings are absent, zero or negative.\<close>

definition ignored_config :: internal_config where
  "ignored_config =
     \<lparr> config_retryIntervalMs = None,
       config_pingIntervalMs = Some 0,
       config_closeUnresponsiveConnectionTimeoutMs = Some (- 5),
       config_reinitializeBatchTimeoutMs = None,
       config_completeHttpRequestDelayMs = Some 0,
       config_maxResendAttempts = Some (- 1),
       getClientHandlers = False,
       setHostHandlers = False \<rparr>"

text \<open>
  A client with the initial settings (ten attempts, 3000 ms between retries) that is
  connected and initialised, with one action and one page.
\<close>

definition serving_client :: client where
  "serving_client =
     (new_client ignored_config)
       \<lparr> ws := Some True, serverRpc := True, isInitialized := True,
         organization := Some (''Acme'', ''acme''),
         actionHandlers := [(''hello'', 1)],
         pageHandlers := [(''dashboard'', 2)] \<rparr>"

text \<open>A peer whose first attempt times out and whose second attempt succeeds.\<close>

definition timeout_once :: "int \<Rightarrow> error + response" where
  "timeout_once n = (if n = 1 then Inl TimeoutError else Inr Success)"

text \<open>
  A client limited to one resend attempt that holds a pending I/O call and a pending
  loading state for the transaction \<open>t1\<close>, and a peer that cannot be reached (every
  attempt fails with an error that is neither a timeout nor an \<^verbatim>\<open>IOError\<close>).
\<close>

definition one_attempt_client :: client where
  "one_attempt_client =
     serving_client
       \<lparr> maxResendAttempts := 1,
         pendingIOCalls := [(''t1'', ''{}'')],
         transactionLoadingStates := [(''t1'', LoadingState (Some ''Waiting'') None None)] \<rparr>"

definition unreachable :: "int \<Rightarrow> key \<Rightarrow> int \<Rightarrow> error + response" where
  "unreachable attemptNumber transactionId n = Inl (Error ''socket closed'')"

text \<open>
  A peer that acknowledges every call, and a peer that acknowledges the call for
  \<open>t1\<close>, answers the call for \<open>t2\<close> with an error response and cannot be reached
  for any other.
\<close>

definition acknowledged :: "int \<Rightarrow> key \<Rightarrow> int \<Rightarrow> error + response" where
  "acknowledged attemptNumber transactionId n = Inr Success"

definition mixed_peer :: "int \<Rightarrow> key \<Rightarrow> int \<Rightarrow> error + response" where
  "mixed_peer attemptNumber transactionId n =
     (if transactionId = ''t1'' then Inr Success
      else if transactionId = ''t2'' then Inr (Error_response None)
      else Inl (Error ''socket closed''))"

definition three_pending :: "(key \<times> string) list" where
  "three_pending = [(''t1'', ''{}''), (''t2'', ''[]''), (''t3'', ''null'')]"

text \<open>
  A client that serves the transactions \<open>t1\<close> and \<open>t2\<close> and the pages \<open>p1\<close> and
  \<open>p2\<close>; the clients of \<open>t1\<close> and \<open>p1\<close> have registered an inline action each.
\<close>

definition busy_client :: client where
  "busy_client =
     serving_client
       \<lparr> actionHandlers := [(''hello'', 1), (''k1'', 3), (''k2'', 4)],
         ioClients := [(''t1'', \<lparr> inlineActionKeys = [''k1''] \<rparr>), (''t2'', new_IOClient),
                       (''p1'', \<lparr> inlineActionKeys = [''k2''] \<rparr>), (''p2'', new_IOClient)],
         ioResponseHandlers :=
           [(''t1'', \<lparr> inlineActionKeys = [''k1''] \<rparr>), (''t2'', new_IOClient),
            (''p1'', \<lparr> inlineActionKeys = [''k2''] \<rparr>), (''p2'', new_IOClient)],
         pendingIOCalls := [(''t1'', ''{}''), (''t2'', ''[]'')],
         openPages := {''p1'', ''p2''},
         pendingPageLayouts := [(''p1'', ''{}''), (''p2'', ''[]'')],
         transactionLoadingStates :=
           [(''t1'', LoadingState (Some ''Waiting'') None None),
            (''p1'', LoadingState None None None),
            (''t2'', LoadingState None None (Some 3))] \<rparr>"

text \<open>
  The inputs of a transaction \<open>t1\<close> of the action \<open>hello\<close> and of a page \<open>p1\<close>
  of the page \<open>dashboard\<close>, and a peer that accepts the shutdown request.
\<close>

definition start_t1 :: start_inputs where
  "start_t1 =
     \<lparr> inputs_transactionId = ''t1'', action_slug = ''hello'',
       displayResolvesImmediately = None \<rparr>"

definition open_p1 :: open_inputs where
  "open_p1 = \<lparr> inputs_pageKey = ''p1'', page_slug = ''dashboard'' \<rparr>"

definition shutdown_accepted :: "int \<Rightarrow> error + shutdown_response" where
  "shutdown_accepted n = Inr Shutdown_success"

definition start_t3 :: start_inputs where
  "start_t3 =
     \<lparr> inputs_transactionId = ''t3'', action_slug = ''hello'',
       displayResolvesImmediately = None \<rparr>"






text \<open>
  Arguments of \<^verbatim>\<open>ctx.log\<close>: \<^verbatim>\<open>undefined\<close>, the string \<open>ab\<close> and the number
  \<open>1\<close>, with a \<^verbatim>\<open>JSON.stringify\<close> for numbers below ten; and one string of
  10001 characters.
\<close>

definition digit_json :: "nat \<Rightarrow> jsstring option" where
  "digit_json n = (if n < 10 then Some [of_nat (48 + n)] else None)"

definition short_args :: "nat arg list" where
  "short_args = [Undefined, Str (js ''ab''), Other 1]"

definition long_args :: "nat arg list" where
  "long_args = [Str (replicate 10001 0x61)]"

section \<open>Properties\<close>

subsection \<open>Shared facts\<close>

text \<open>Deleting keys from an association list.\<close>

lemma keys_delete: "fst ` set (AList.delete k al) = fst ` set al - {k}"
  by (metis AList.delete_keys set_map set_removeAll)

lemma map_of_delete_keys:
  "map_of (delete_keys ks m) key = (if key \<in> set ks then None else map_of m key)"
  unfolding delete_keys_def
  by (induction ks arbitrary: m) (auto simp: AList.delete_conv')

text \<open>
  The first attempt of a send: a response is returned and an error that is not a timeout
  is rethrown, after that one attempt. A send reads the settings of the client only.
\<close>

lemma send_from_returns:
  "n \<le> maxResendAttempts c \<Longrightarrow> rpc n = Inr r
    \<Longrightarrow> send_from c rpc n = ([Rpc_send n], Inr r)"
  by (subst send_from.simps) simp

lemma send_from_rethrows:
  "n \<le> maxResendAttempts c \<Longrightarrow> rpc n = Inl err \<Longrightarrow> err \<noteq> TimeoutError
    \<Longrightarrow> send_from c rpc n = ([Rpc_send n], Inl err)"
  by (subst send_from.simps) simp

lemma send_returns:
  "serverRpc c \<Longrightarrow> 1 \<le> maxResendAttempts c \<Longrightarrow> rpc 1 = Inr r
    \<Longrightarrow> send c rpc = ([Rpc_send 1], Inr r)"
  by (simp add: send_def send_from.simps)

lemma send_rethrows:
  "serverRpc c \<Longrightarrow> 1 \<le> maxResendAttempts c \<Longrightarrow> rpc 1 = Inl err \<Longrightarrow> err \<noteq> TimeoutError
    \<Longrightarrow> send c rpc = ([Rpc_send 1], Inl err)"
  by (simp add: send_def send_from.simps)



text \<open>The fields of the concrete clients.\<close>

lemma serving_client_fields:
  "maxResendAttempts serving_client = 10"
  "retryIntervalMs serving_client = 3000"
  "serverRpc serving_client"
  "ws serving_client = Some True"
  "\<not> getClientHandlers (config serving_client)"
  "resolveShutdown serving_client = False"
  "requestId serving_client = None"
  "organization serving_client = Some (''Acme'', ''acme'')"
  "actionHandlers serving_client = [(''hello'', 1)]"
  "pageHandlers serving_client = [(''dashboard'', 2)]"
  "ioResponseHandlers serving_client = []"
  "ioClients serving_client = []"
  "pendingIOCalls serving_client = []"
  "transactionLoadingStates serving_client = []"
  "pendingPageLayouts serving_client = []"
  "openPages serving_client = {}"
  by (simp_all add: serving_client_def new_client_def configured_def
      ignored_config_def truthy_number_def)

lemma one_attempt_client_fields:
  "maxResendAttempts one_attempt_client = 1"
  "retryIntervalMs one_attempt_client = 3000"
  "serverRpc one_attempt_client"
  "ws one_attempt_client = Some True"
  "pendingIOCalls one_attempt_client = [(''t1'', ''{}'')]"
  "transactionLoadingStates one_attempt_client
     = [(''t1'', LoadingState (Some ''Waiting'') None None)]"
  by (simp_all add: one_attempt_client_def serving_client_def new_client_def configured_def
      ignored_config_def truthy_number_def)

lemma busy_client_fields:
  "actionHandlers busy_client = [(''hello'', 1), (''k1'', 3), (''k2'', 4)]"
  "ioClients busy_client
     = [(''t1'', \<lparr> inlineActionKeys = [''k1''] \<rparr>), (''t2'', new_IOClient),
        (''p1'', \<lparr> inlineActionKeys = [''k2''] \<rparr>), (''p2'', new_IOClient)]"
  "ioResponseHandlers busy_client
     = [(''t1'', \<lparr> inlineActionKeys = [''k1''] \<rparr>), (''t2'', new_IOClient),
        (''p1'', \<lparr> inlineActionKeys = [''k2''] \<rparr>), (''p2'', new_IOClient)]"
  "pendingIOCalls busy_client = [(''t1'', ''{}''), (''t2'', ''[]'')]"
  "openPages busy_client = {''p1'', ''p2''}"
  "pendingPageLayouts busy_client = [(''p1'', ''{}''), (''p2'', ''[]'')]"
  "transactionLoadingStates busy_client
     = [(''t1'', LoadingState (Some ''Waiting'') None None),
        (''p1'', LoadingState None None None),
        (''t2'', LoadingState None None (Some 3))]"
  by (simp_all add: busy_client_def)

lemma busy_client_settings:
  "serverRpc busy_client" "maxResendAttempts busy_client = 10"
  "resolveShutdown busy_client = False"
  "organization busy_client = Some (''Acme'', ''acme'')"
  "pageHandlers busy_client = [(''dashboard'', 2)]"
  by (simp_all add: busy_client_def serving_client_fields)

subsection \<open>The constructor\<close>

lemma configured_ignored: "ignored x \<Longrightarrow> configured x d = d"
  by (auto simp: ignored_def configured_def truthy_number_def split: option.splits)

lemma configured_pos: "0 < d \<Longrightarrow> 0 < configured x d"
  by (auto simp: configured_def split: option.splits)

text \<open>
  C10. Whatever configuration the constructor receives, each of the six timing and retry
  settings that is absent, zero or negative is ignored and the client keeps its initial
  value (3000, 30000, 180000, 200, 3000 milliseconds and 10 attempts), and all six
  effective values are strictly positive.
\<close>

theorem constructor_keeps_positive_defaults:
  "(ignored (config_retryIntervalMs cfg) \<longrightarrow> retryIntervalMs (new_client cfg) = 3000) \<and>
   (ignored (config_pingIntervalMs cfg) \<longrightarrow> pingIntervalMs (new_client cfg) = 30000) \<and>
   (ignored (config_closeUnresponsiveConnectionTimeoutMs cfg) \<longrightarrow>
      closeUnresponsiveConnectionTimeoutMs (new_client cfg) = 180000) \<and>
   (ignored (config_reinitializeBatchTimeoutMs cfg) \<longrightarrow>
      reinitializeBatchTimeoutMs (new_client cfg) = 200) \<and>
   (ignored (config_completeHttpRequestDelayMs cfg) \<longrightarrow>
      completeHttpRequestDelayMs (new_client cfg) = 3000) \<and>
   (ignored (config_maxResendAttempts cfg) \<longrightarrow> maxResendAttempts (new_client cfg) = 10) \<and>
   0 < retryIntervalMs (new_client cfg) \<and>
   0 < pingIntervalMs (new_client cfg) \<and>
   0 < closeUnresponsiveConnectionTimeoutMs (new_client cfg) \<and>
   0 < reinitializeBatchTimeoutMs (new_client cfg) \<and>
   0 < completeHttpRequestDelayMs (new_client cfg) \<and>
   0 < maxResendAttempts (new_client cfg)"
  by (simp add: new_client_def configured_ignored configured_pos)

theorem constructor_keeps_positive_defaults_witness:
  "ignored (config_retryIntervalMs ignored_config) \<and>
   ignored (config_pingIntervalMs ignored_config) \<and>
   ignored (config_closeUnresponsiveConnectionTimeoutMs ignored_config) \<and>
   ignored (config_reinitializeBatchTimeoutMs ignored_config) \<and>
   ignored (config_completeHttpRequestDelayMs ignored_config) \<and>
   ignored (config_maxResendAttempts ignored_config) \<and>
   retryIntervalMs (new_client ignored_config) = 3000 \<and>
   pingIntervalMs (new_client ignored_config) = 30000 \<and>
   closeUnresponsiveConnectionTimeoutMs (new_client ignored_config) = 180000 \<and>
   reinitializeBatchTimeoutMs (new_client ignored_config) = 200 \<and>
   completeHttpRequestDelayMs (new_client ignored_config) = 3000 \<and>
   maxResendAttempts (new_client ignored_config) = 10"
  using constructor_keeps_positive_defaults [of ignored_config]
  by (simp add: ignored_config_def ignored_def)

subsection \<open>The outer send\<close>

text \<open>A send never suspends its caller in a sleep: the sleep after a timeout is not awaited.\<close>

lemma send_from_never_waits: "waited (fst (send_from c rpc n)) = 0"
proof (induction c rpc n rule: send_from.induct)
  case (1 c rpc n)
  show ?case
    using "1.IH"
    by (subst send_from.simps) (auto simp: Let_def split: sum.splits prod.splits)
qed

lemma send_never_waits: "waited (fst (send c rpc)) = 0"
  by (simp add: send_def send_from_never_waits)

text \<open>The attempts carry the consecutive attempt numbers as their timeout factors.\<close>

lemma send_from_attempts_consecutive:
  "attempts (fst (send_from c rpc n))
     = [n .. n + int (length (attempts (fst (send_from c rpc n)))) - 1]"
proof (induction c rpc n rule: send_from.induct)
  case (1 c rpc n)
  show ?case
  proof (cases "n \<le> maxResendAttempts c")
    case False
    then show ?thesis by (subst (1 2) send_from.simps) simp
  next
    case le: True
    show ?thesis
    proof (cases "rpc n")
      case (Inr r)
      with le show ?thesis by (simp add: send_from_returns)
    next
      case (Inl err)
      show ?thesis
      proof (cases "err = TimeoutError")
        case False
        with le Inl show ?thesis by (simp add: send_from_rethrows)
      next
        case True
        obtain evs res where rec: "send_from c rpc (n + 1) = (evs, res)"
          by (cases "send_from c rpc (n + 1)")
        have unfold: "send_from c rpc n
            = (Rpc_send n # Sleep_not_awaited (retryIntervalMs c * n) # evs, res)"
          using le Inl True rec by (subst send_from.simps) (simp add: Let_def)
        have ih: "attempts evs = [n + 1 .. n + 1 + int (length (attempts evs)) - 1]"
          using "1.IH"[OF le Inl refl True] rec by simp
        have "[n .. n + int (length (attempts evs))]
            = n # [n + 1 .. n + int (length (attempts evs))]"
          by (simp add: upto_rec1)
        with ih show ?thesis
          by (simp add: unfold algebra_simps)
      qed
    qed
  qed
qed

text \<open>
  When every attempt times out, the attempts \<open>n\<close> to \<open>maxResendAttempts\<close> are made
  and the call fails with the max-retries error.
\<close>

lemma send_from_all_timeouts:
  "(\<forall>k. n \<le> k \<and> k \<le> maxResendAttempts c \<longrightarrow> rpc k = Inl TimeoutError)
   \<Longrightarrow> snd (send_from c rpc n)
         = Inl (ChronicalsError ''Maximum failed resend attempts reached, aborting.'')
     \<and> attempts (fst (send_from c rpc n)) = [n .. maxResendAttempts c]"
proof (induction c rpc n rule: send_from.induct)
  case (1 c rpc n)
  show ?case
  proof (cases "n \<le> maxResendAttempts c")
    case False
    then show ?thesis by (subst (1 2) send_from.simps) simp
  next
    case le: True
    then have to: "rpc n = Inl TimeoutError" using "1.prems" by simp
    obtain evs res where rec: "send_from c rpc (n + 1) = (evs, res)"
      by (cases "send_from c rpc (n + 1)")
    have unfold: "send_from c rpc n
        = (Rpc_send n # Sleep_not_awaited (retryIntervalMs c * n) # evs, res)"
      using le to rec by (subst send_from.simps) (simp add: Let_def)
    have ih: "res = Inl (ChronicalsError ''Maximum failed resend attempts reached, aborting.'')
        \<and> attempts evs = [n + 1 .. maxResendAttempts c]"
      using "1.IH"[OF le to refl refl] "1.prems" rec by simp
    show ?thesis using ih le by (simp add: unfold upto_rec1)
  qed
qed

text \<open>
  The attempts of \<^verbatim>\<open>sendPage()\<close>, for comparison, are separated by an awaited
  sleep of \<open>retryIntervalMs\<close>.
\<close>

lemma sendPage_waits_between_attempts:
  "sendPage_from serving_client ''p1'' (Some ''{}'')
      (\<lambda>i n. if i = 0 then Inl (Error ''socket closed'') else Inr Success) 0
     = (serving_client\<lparr> pendingPageLayouts := [(''p1'', ''{}'')] \<rparr>,
        [Rpc_send 1, Sleep_awaited 3000, Rpc_send 1], Inr ())"
  by (simp add: sendPage_from.simps MAX_PAGE_RETRIES_def send_rethrows send_returns
      serving_client_fields Let_def)

text \<open>
  C4. The outer send makes the attempts 1, 2, ... with the attempt number as the
  timeout factor, rethrows an error that is not a timeout at once and fails with the
  max-retries error when every attempt up to \<open>maxResendAttempts\<close> times out
  (the lemmas above). It does not wait between attempts: with the initial settings and
  a peer whose first attempt times out, the second attempt follows the first with no
  awaited sleep; the sleep of \<open>retryIntervalMs * 1 = 3000\<close> ms is started and its
  promise dropped.
\<close>

theorem send_retries_without_waiting:
  "send serving_client timeout_once
     = ([Rpc_send 1, Sleep_not_awaited 3000, Rpc_send 2], Inr Success)
   \<and> waited (fst (send serving_client timeout_once)) = 0"
  by (simp add: send_def serving_client_def new_client_def ignored_config_def configured_def
      truthy_number_def timeout_once_def send_from.simps Let_def)

subsection \<open>The rounds of the resend engines\<close>

lemma resend_loop_rounds_le:
  "length (fst (resend_loop each maxAttempts n st)) \<le> nat (maxAttempts + 1 - n)"
proof (induction each maxAttempts n st rule: resend_loop.induct)
  case (1 each maxAttempts n st)
  show ?case
  proof (cases "fst st \<noteq> [] \<and> n \<le> maxAttempts")
    case True
    then show ?thesis
      using "1.IH"
      by (subst resend_loop.simps) (auto split: prod.splits)
  next
    case False
    then show ?thesis by (subst resend_loop.simps) auto
  qed
qed

text \<open>
  The engines of the pending I/O calls and of the pending page layouts start at the
  attempt 1 and run at most \<open>maxResendAttempts\<close> rounds.
\<close>

lemma resendPendingIOCalls_rounds_le:
  "length (fst (resendPendingIOCalls c rpc ids)) \<le> nat (maxResendAttempts c)"
  using resend_loop_rounds_le [of "resend_io_entry c rpc" "maxResendAttempts c" 1]
  by (auto simp: resendPendingIOCalls_def split: prod.splits)
     (metis add_diff_cancel_right' fst_conv)

lemma resendPendingPageLayouts_rounds_le:
  "length (fst (resendPendingPageLayouts c rpc ids)) \<le> nat (maxResendAttempts c)"
  using resend_loop_rounds_le [of "resend_page_entry c rpc" "maxResendAttempts c" 1]
  by (auto simp: resendPendingPageLayouts_def split: prod.splits)
     (metis add_diff_cancel_right' fst_conv)

text \<open>The engine of the loading states starts at the attempt 0: one round more.\<close>

lemma resendTransactionLoadingStates_rounds_le:
  "length (fst (resendTransactionLoadingStates c rpc ids)) \<le> nat (maxResendAttempts c + 1)"
  using resend_loop_rounds_le [of "resend_loading_entry c rpc" "maxResendAttempts c" 0]
  by (auto simp: resendTransactionLoadingStates_def split: prod.splits)
     (metis diff_zero fst_conv)

lemma send_unreachable:
  "snd (send one_attempt_client (unreachable a t)) = Inl (Error ''socket closed'')"
  by (simp add: send_def one_attempt_client_fields unreachable_def send_from.simps)

lemma new_Map_nonempty: "entries \<noteq> [] \<Longrightarrow> new_Map entries \<noteq> []"
proof -
  have "m \<noteq> [] \<Longrightarrow> foldl (\<lambda>m (k, v). AList.update k v m) m es \<noteq> []" for m :: "(key \<times> 'a) list" and es
    by (induction es arbitrary: m) (auto split: prod.splits)
  moreover assume "entries \<noteq> []"
  ultimately show ?thesis
    by (cases entries) (auto simp: new_Map_def split: prod.splits)
qed

lemma resend_round_all_retried:
  "(\<And>st e. each st e = st) \<Longrightarrow> resend_round each st = st"
proof -
  assume same: "\<And>st e. each st e = st"
  have "foldl each st es = st" for es
    by (induction es) (simp_all add: same)
  then show ?thesis by (simp add: resend_round_def)
qed

lemma resend_loop_all_retried:
  "(\<And>n st e. each n st e = st) \<Longrightarrow> fst st \<noteq> []
    \<Longrightarrow> fst (resend_loop each maxAttempts n st) = [n .. maxAttempts]"
proof (induction each maxAttempts n st rule: resend_loop.induct)
  case (1 each maxAttempts n st)
  have round: "resend_round (each n) st = st"
    using "1.prems"(1) by (simp add: resend_round_all_retried)
  show ?case
  proof (cases "n \<le> maxAttempts")
    case True
    have "fst (resend_loop each maxAttempts (n + 1) (resend_round (each n) st))
        = [n + 1 .. maxAttempts]"
    proof (rule "1.IH")
      show "fst st \<noteq> [] \<and> n \<le> maxAttempts" using True "1.prems"(2) by (rule conjI [rotated])
      show "\<And>n st e. each n st e = st" by (rule "1.prems"(1))
      show "fst (resend_round (each n) st) \<noteq> []" unfolding round by (rule "1.prems"(2))
    qed
    then have ih: "fst (resend_loop each maxAttempts (n + 1) st) = [n + 1 .. maxAttempts]"
      unfolding round .
    show ?thesis
      using True "1.prems"(2) ih round
      by (subst resend_loop.simps) (auto simp: upto_rec1 split: prod.splits)
  next
    case False
    then show ?thesis by (subst resend_loop.simps) simp
  qed
qed

lemma resend_loading_entry_retried:
  "retried (snd (send c (rpc n (fst e)))) \<Longrightarrow> resend_loading_entry c rpc n st e = st"
  by (cases st; cases e)
     (auto simp: resend_loading_entry_def retried_def split: sum.splits error.splits)

text \<open>
  When no send gets through, the engine of the loading states runs the rounds
  \<open>0, \<dots>, maxResendAttempts\<close>: one more than \<open>maxResendAttempts\<close>.
\<close>

lemma resendTransactionLoadingStates_rounds:
  assumes "isConnected c" and "transactionLoadingStates c \<noteq> []"
    and "\<And>n t. retried (snd (send c (rpc n t)))"
  shows "fst (resendTransactionLoadingStates c rpc None) = [0 .. maxResendAttempts c]"
proof -
  have ne: "toResend_of (\<lambda>state. True) None (transactionLoadingStates c) \<noteq> []"
    using assms(2) by (simp add: toResend_of_def new_Map_nonempty)
  have same: "\<And>n st e. resend_loading_entry c rpc n st e = st"
    using assms(3) by (simp add: resend_loading_entry_retried)
  show ?thesis
    using assms(1)
      resend_loop_all_retried [of "resend_loading_entry c rpc"
        "(toResend_of (\<lambda>state. True) None (transactionLoadingStates c), transactionLoadingStates c)"
        "maxResendAttempts c" 0, OF same]
      ne
    by (auto simp: resendTransactionLoadingStates_def split: prod.splits)
qed

text \<open>
  C5. With \<open>maxResendAttempts = 1\<close> and a peer that cannot be reached, the engine of
  the loading states runs two rounds (the attempts 0 and 1), the engine of the pending
  I/O calls one (the attempt 1).
\<close>

theorem loading_states_resent_once_too_often:
  "maxResendAttempts one_attempt_client = 1
   \<and> fst (resendTransactionLoadingStates one_attempt_client unreachable None) = [0, 1]
   \<and> fst (resendPendingIOCalls one_attempt_client unreachable None) = [1]"
  by (simp add: resendTransactionLoadingStates_def resendPendingIOCalls_def isConnected_def
      toResend_of_def new_Map_def resend_loop.simps resend_round_def
      resend_loading_entry_def resend_io_entry_def send_unreachable one_attempt_client_fields)

subsection \<open>The pending I/O calls\<close>

text \<open>What one round of the engine of the pending I/O calls does to the two maps.\<close>

lemma foldl_io_pending:
  "map_of (snd (foldl (resend_io_entry c rpc n) (toResend, pending) entries)) t
     = (if t \<in> fst ` set entries \<and> io_terminal (snd (send c (rpc n t)))
        then None else map_of pending t)"
proof (induction entries arbitrary: toResend pending)
  case Nil
  show ?case by simp
next
  case (Cons e entries)
  obtain k v where e: "e = (k, v)" by (cases e)
  obtain toResend' pending' where st: "resend_io_entry c rpc n (toResend, pending) e = (toResend', pending')"
    by (cases "resend_io_entry c rpc n (toResend, pending) e")
  have p': "map_of pending' t = (if t = k \<and> io_terminal (snd (send c (rpc n k))) then None else map_of pending t)"
    using st e
    by (auto simp: resend_io_entry_def io_terminal_def AList.delete_conv'
        split: sum.splits error.splits if_splits)
  show ?case
    using Cons.IH [of toResend' pending'] p' e st by auto
qed

lemma foldl_io_toResend:
  "fst ` set (fst (foldl (resend_io_entry c rpc n) (toResend, pending) entries))
     = {t \<in> fst ` set toResend. t \<in> fst ` set entries \<longrightarrow> retried (snd (send c (rpc n t)))}"
proof (induction entries arbitrary: toResend pending)
  case Nil
  show ?case by simp
next
  case (Cons e entries)
  obtain k v where e: "e = (k, v)" by (cases e)
  obtain toResend' pending' where st: "resend_io_entry c rpc n (toResend, pending) e = (toResend', pending')"
    by (cases "resend_io_entry c rpc n (toResend, pending) e")
  have "toResend' = (if retried (snd (send c (rpc n k))) then toResend
                      else AList.delete k toResend)"
    using st e
    by (auto simp: resend_io_entry_def retried_def
        split: sum.splits error.splits if_splits)
  then have t': "fst ` set toResend'
      = {t \<in> fst ` set toResend. t = k \<longrightarrow> retried (snd (send c (rpc n k)))}"
    by (cases "retried (snd (send c (rpc n k)))") (auto simp: keys_delete)
  show ?case
    using Cons.IH [of toResend' pending'] t' e st by auto
qed

lemma resend_io_round_pending:
  "map_of (snd (resend_round (resend_io_entry c rpc n) st)) t
     = (if t \<in> fst ` set (fst st) \<and> io_terminal (snd (send c (rpc n t)))
        then None else map_of (snd st) t)"
  using foldl_io_pending [of c rpc n "fst st" "snd st" "fst st" t]
  by (simp add: resend_round_def)

text \<open>
  Over the whole engine: an entry whose resends never end in one of the terminal
  outcomes is still in the pending-IO map when the engine gives up, and an entry that
  is gone stays gone.
\<close>

lemma resend_loop_io_kept:
  "(\<And>k. \<not> io_terminal (snd (send c (rpc k t))))
    \<Longrightarrow> map_of (snd (snd (resend_loop (resend_io_entry c rpc) maxAttempts n st))) t
        = map_of (snd st) t"
proof (induction "resend_io_entry c rpc" maxAttempts n st rule: resend_loop.induct)
  case (1 maxAttempts n st)
  show ?case
  proof (cases "fst st \<noteq> [] \<and> n \<le> maxAttempts")
    case True
    have round: "map_of (snd (resend_round (resend_io_entry c rpc n) st)) t = map_of (snd st) t"
      using "1.prems" by (simp add: resend_io_round_pending)
    have "map_of (snd (snd (resend_loop (resend_io_entry c rpc) maxAttempts (n + 1)
              (resend_round (resend_io_entry c rpc n) st)))) t
        = map_of (snd (resend_round (resend_io_entry c rpc n) st)) t"
      using "1.hyps" [OF True] "1.prems" by simp
    then show ?thesis
      using True round
      by (subst resend_loop.simps) (auto split: prod.splits)
  next
    case False
    then show ?thesis by (subst resend_loop.simps) auto
  qed
qed

lemma resend_loop_io_gone:
  "map_of (snd st) t = None
    \<Longrightarrow> map_of (snd (snd (resend_loop (resend_io_entry c rpc) maxAttempts n st))) t = None"
proof (induction "resend_io_entry c rpc" maxAttempts n st rule: resend_loop.induct)
  case (1 maxAttempts n st)
  show ?case
  proof (cases "fst st \<noteq> [] \<and> n \<le> maxAttempts")
    case True
    have round: "map_of (snd (resend_round (resend_io_entry c rpc n) st)) t = None"
      using "1.prems" by (simp add: resend_io_round_pending)
    have "map_of (snd (snd (resend_loop (resend_io_entry c rpc) maxAttempts (n + 1)
              (resend_round (resend_io_entry c rpc n) st)))) t = None"
      using "1.hyps" [OF True round] .
    then show ?thesis
      using True
      by (subst resend_loop.simps) (auto split: prod.splits)
  next
    case False
    then show ?thesis using "1.prems" by (subst resend_loop.simps) auto
  qed
qed

lemma resendPendingIOCalls_kept:
  "(\<And>k. \<not> io_terminal (snd (send c (rpc k t))))
    \<Longrightarrow> map_of (pendingIOCalls (snd (resendPendingIOCalls c rpc ids))) t
        = map_of (pendingIOCalls c) t"
  using resend_loop_io_kept [of c rpc t "maxResendAttempts c" 1
      "(toResend_of (\<lambda>state. state \<noteq> []) ids (pendingIOCalls c), pendingIOCalls c)"]
  by (auto simp: resendPendingIOCalls_def split: prod.splits)

lemma resendPendingIOCalls_removed:
  assumes "isConnected c" and "1 \<le> maxResendAttempts c"
    and "t \<in> fst ` set (toResend_of (\<lambda>state. state \<noteq> []) ids (pendingIOCalls c))"
    and "io_terminal (snd (send c (rpc 1 t)))"
  shows "map_of (pendingIOCalls (snd (resendPendingIOCalls c rpc ids))) t = None"
proof -
  let ?st = "(toResend_of (\<lambda>state. state \<noteq> []) ids (pendingIOCalls c), pendingIOCalls c)"
  have ne: "fst ?st \<noteq> []" using assms(3) by auto
  have round: "map_of (snd (resend_round (resend_io_entry c rpc 1) ?st)) t = None"
    using assms(3,4) by (simp add: resend_io_round_pending)
  have "map_of (snd (snd (resend_loop (resend_io_entry c rpc) (maxResendAttempts c) (1 + 1)
            (resend_round (resend_io_entry c rpc 1) ?st)))) t = None"
    using round by (rule resend_loop_io_gone)
  then have "map_of (snd (snd (resend_loop (resend_io_entry c rpc) (maxResendAttempts c) 1 ?st))) t
      = None"
    using ne assms(2)
    by (subst resend_loop.simps) (auto split: prod.splits)
  then show ?thesis
    using assms(1) by (auto simp: resendPendingIOCalls_def split: prod.splits)
qed

text \<open>
  C1, as amended. The initial send from the transaction's \<^verbatim>\<open>IOClient\<close> records
  the call in the pending-IO map and leaves it there however the send ends. In a round
  of the resend engine the entry of \<open>t\<close> is removed from the pending-IO map exactly
  when \<open>t\<close> is resent and the send ends with an unsuccessful response (falsy or of
  type \<^verbatim>\<open>'ERROR'\<close>) or with an \<^verbatim>\<open>IOError\<close> of kind \<^verbatim>\<open>CANCELED\<close> or
  \<^verbatim>\<open>TRANSACTION_CLOSED\<close>; after an acknowledged resend the entry stays in the
  map and leaves \<^verbatim>\<open>toResend\<close>; after any other failure it stays in both, for
  the next round.
\<close>

theorem pending_io_entry_removal:
  "map_of (pendingIOCalls (fst (io_send c t ioCall rpc1 rendered))) t = Some ioCall
   \<and> map_of (snd (resend_round (resend_io_entry c rpc n) (toResend, pending))) t
       = (if t \<in> fst ` set toResend \<and> io_terminal (snd (send c (rpc n t)))
          then None else map_of pending t)
   \<and> (t \<in> fst ` set (fst (resend_round (resend_io_entry c rpc n) (toResend, pending)))
        \<longleftrightarrow> t \<in> fst ` set toResend \<and> retried (snd (send c (rpc n t))))"
proof (intro conjI)
  show "map_of (pendingIOCalls (fst (io_send c t ioCall rpc1 rendered))) t = Some ioCall"
    by (simp add: io_send_def Let_def AList.update_conv' split: sum.splits)
  show "map_of (snd (resend_round (resend_io_entry c rpc n) (toResend, pending))) t
       = (if t \<in> fst ` set toResend \<and> io_terminal (snd (send c (rpc n t)))
          then None else map_of pending t)"
    by (simp only: resend_round_def fst_conv foldl_io_pending)
  show "t \<in> fst ` set (fst (resend_round (resend_io_entry c rpc n) (toResend, pending)))
        \<longleftrightarrow> t \<in> fst ` set toResend \<and> retried (snd (send c (rpc n t)))"
    by (simp only: resend_round_def fst_conv foldl_io_toResend) blast
qed

lemma send_serving_mixed:
  "snd (send serving_client (mixed_peer a ''t1'')) = Inr Success"
  "snd (send serving_client (mixed_peer a ''t2'')) = Inr (Error_response None)"
  "snd (send serving_client (mixed_peer a ''t3'')) = Inl (Error ''socket closed'')"
  by (simp_all add: send_def serving_client_fields mixed_peer_def send_from.simps)

theorem pending_io_entry_removal_witness:
  "map_of (pendingIOCalls (fst (io_send serving_client ''t2'' ''[]'' (mixed_peer 0 ''t2'') (Inr ()))))
      ''t2'' = Some ''[]''
   \<and> map_of (snd (resend_round (resend_io_entry serving_client mixed_peer 1)
        (three_pending, three_pending))) ''t2'' = None
   \<and> ''t2'' \<notin> fst ` set (fst (resend_round (resend_io_entry serving_client mixed_peer 1)
        (three_pending, three_pending)))"
  using pending_io_entry_removal [of serving_client "''t2''" "''[]''" "mixed_peer 0 ''t2''" "Inr ()"
      mixed_peer 1 three_pending three_pending]
  by (simp add: send_serving_mixed io_terminal_def retried_def is_error_response_def
      three_pending_def)

text \<open>
  The claim as stated fails: after an acknowledged \<^verbatim>\<open>SEND_IO_CALL\<close>, on the
  initial send and in the resend engine, the entry of \<open>t1\<close> is still in the map.
\<close>

theorem pending_io_entry_kept_after_ack:
  "snd (io_send one_attempt_client ''t1'' ''{}'' (acknowledged 0 ''t1'') (Inr ())) = Inr ()
   \<and> map_of (pendingIOCalls
        (fst (io_send one_attempt_client ''t1'' ''{}'' (acknowledged 0 ''t1'') (Inr ())))) ''t1''
       = Some ''{}''
   \<and> fst (resendPendingIOCalls one_attempt_client acknowledged None) = [1]
   \<and> map_of (pendingIOCalls (snd (resendPendingIOCalls one_attempt_client acknowledged None)))
        ''t1'' = Some ''{}''"
  by (simp add: io_send_def resendPendingIOCalls_def isConnected_def
      toResend_of_def new_Map_def resend_loop.simps resend_round_def Let_def
      resend_io_entry_def send_returns acknowledged_def one_attempt_client_fields
      is_error_response_def)

subsection \<open>Closing a transaction or a page\<close>

lemma closeTransaction_removes:
  "map_of (pendingIOCalls (fst (closeTransaction c t))) t = None"
  "map_of (transactionLoadingStates (fst (closeTransaction c t))) t = None"
  "map_of (ioResponseHandlers (fst (closeTransaction c t))) t = None"
  "map_of (ioClients (fst (closeTransaction c t))) t = None"
  "key \<in> inline_keys_of c t \<Longrightarrow> map_of (actionHandlers (fst (closeTransaction c t))) key = None"
  by (auto simp: closeTransaction_def Let_def inline_keys_of_def AList.delete_conv'
      map_of_delete_keys split: option.splits)

lemma closeTransaction_frame:
  "t' \<noteq> t \<Longrightarrow> map_of (pendingIOCalls (fst (closeTransaction c t))) t' = map_of (pendingIOCalls c) t'"
  "t' \<noteq> t \<Longrightarrow> map_of (transactionLoadingStates (fst (closeTransaction c t))) t'
      = map_of (transactionLoadingStates c) t'"
  "t' \<noteq> t \<Longrightarrow> map_of (ioResponseHandlers (fst (closeTransaction c t))) t'
      = map_of (ioResponseHandlers c) t'"
  "t' \<noteq> t \<Longrightarrow> map_of (ioClients (fst (closeTransaction c t))) t' = map_of (ioClients c) t'"
  "key \<notin> inline_keys_of c t \<Longrightarrow> map_of (actionHandlers (fst (closeTransaction c t))) key
      = map_of (actionHandlers c) key"
  "openPages (fst (closeTransaction c t)) = openPages c"
  "pendingPageLayouts (fst (closeTransaction c t)) = pendingPageLayouts c"
  by (auto simp: closeTransaction_def Let_def inline_keys_of_def AList.delete_conv'
      map_of_delete_keys split: option.splits)

lemma CLOSE_PAGE_removes:
  "k \<notin> openPages (fst (CLOSE_PAGE c k))"
  "map_of (pendingPageLayouts (fst (CLOSE_PAGE c k))) k = None"
  "map_of (transactionLoadingStates (fst (CLOSE_PAGE c k))) k = None"
  "map_of (ioResponseHandlers (fst (CLOSE_PAGE c k))) k = None"
  "map_of (ioClients (fst (CLOSE_PAGE c k))) k = None"
  "key \<in> inline_keys_of c k \<Longrightarrow> map_of (actionHandlers (fst (CLOSE_PAGE c k))) key = None"
  by (auto simp: CLOSE_PAGE_def Let_def inline_keys_of_def AList.delete_conv'
      map_of_delete_keys split: option.splits)

lemma CLOSE_PAGE_frame:
  "k' \<noteq> k \<Longrightarrow> k' \<in> openPages (fst (CLOSE_PAGE c k)) \<longleftrightarrow> k' \<in> openPages c"
  "k' \<noteq> k \<Longrightarrow> map_of (pendingPageLayouts (fst (CLOSE_PAGE c k))) k' = map_of (pendingPageLayouts c) k'"
  "k' \<noteq> k \<Longrightarrow> map_of (transactionLoadingStates (fst (CLOSE_PAGE c k))) k'
      = map_of (transactionLoadingStates c) k'"
  "k' \<noteq> k \<Longrightarrow> map_of (ioResponseHandlers (fst (CLOSE_PAGE c k))) k'
      = map_of (ioResponseHandlers c) k'"
  "k' \<noteq> k \<Longrightarrow> map_of (ioClients (fst (CLOSE_PAGE c k))) k' = map_of (ioClients c) k'"
  "key \<notin> inline_keys_of c k \<Longrightarrow> map_of (actionHandlers (fst (CLOSE_PAGE c k))) key
      = map_of (actionHandlers c) key"
  "pendingIOCalls (fst (CLOSE_PAGE c k)) = pendingIOCalls c"
  by (auto simp: CLOSE_PAGE_def Let_def inline_keys_of_def AList.delete_conv'
      map_of_delete_keys split: option.splits)

text \<open>
  C8. Closing an id removes exactly its own entries. After \<^verbatim>\<open>CLOSE_TRANSACTION\<close>
  of \<open>t\<close> the pending I/O call, the pending loading state, the io-response handler
  and the \<^verbatim>\<open>IOClient\<close> of \<open>t\<close> and the inline-action keys its client had
  registered are absent; after \<^verbatim>\<open>CLOSE_PAGE\<close> of \<open>k\<close> the page is not open
  and its pending layout, pending loading state, io-response handler,
  \<^verbatim>\<open>IOClient\<close> and inline-action keys are absent. In both cases the entries of
  every other id, and every action handler under another key, are unchanged.
\<close>

theorem close_removes_exactly_own_entries:
  "(map_of (pendingIOCalls (fst (CLOSE_TRANSACTION c t))) t = None
    \<and> map_of (transactionLoadingStates (fst (CLOSE_TRANSACTION c t))) t = None
    \<and> map_of (ioResponseHandlers (fst (CLOSE_TRANSACTION c t))) t = None
    \<and> map_of (ioClients (fst (CLOSE_TRANSACTION c t))) t = None
    \<and> (\<forall>key \<in> inline_keys_of c t.
          map_of (actionHandlers (fst (CLOSE_TRANSACTION c t))) key = None)
    \<and> (\<forall>t'. t' \<noteq> t \<longrightarrow>
          map_of (pendingIOCalls (fst (CLOSE_TRANSACTION c t))) t' = map_of (pendingIOCalls c) t'
          \<and> map_of (transactionLoadingStates (fst (CLOSE_TRANSACTION c t))) t'
              = map_of (transactionLoadingStates c) t'
          \<and> map_of (ioResponseHandlers (fst (CLOSE_TRANSACTION c t))) t'
              = map_of (ioResponseHandlers c) t'
          \<and> map_of (ioClients (fst (CLOSE_TRANSACTION c t))) t' = map_of (ioClients c) t')
    \<and> (\<forall>key. key \<notin> inline_keys_of c t \<longrightarrow>
          map_of (actionHandlers (fst (CLOSE_TRANSACTION c t))) key
            = map_of (actionHandlers c) key)
    \<and> openPages (fst (CLOSE_TRANSACTION c t)) = openPages c
    \<and> pendingPageLayouts (fst (CLOSE_TRANSACTION c t)) = pendingPageLayouts c)
   \<and>
   (k \<notin> openPages (fst (CLOSE_PAGE c k))
    \<and> map_of (pendingPageLayouts (fst (CLOSE_PAGE c k))) k = None
    \<and> map_of (transactionLoadingStates (fst (CLOSE_PAGE c k))) k = None
    \<and> map_of (ioResponseHandlers (fst (CLOSE_PAGE c k))) k = None
    \<and> map_of (ioClients (fst (CLOSE_PAGE c k))) k = None
    \<and> (\<forall>key \<in> inline_keys_of c k. map_of (actionHandlers (fst (CLOSE_PAGE c k))) key = None)
    \<and> (\<forall>k'. k' \<noteq> k \<longrightarrow>
          (k' \<in> openPages (fst (CLOSE_PAGE c k)) \<longleftrightarrow> k' \<in> openPages c)
          \<and> map_of (pendingPageLayouts (fst (CLOSE_PAGE c k))) k'
              = map_of (pendingPageLayouts c) k'
          \<and> map_of (transactionLoadingStates (fst (CLOSE_PAGE c k))) k'
              = map_of (transactionLoadingStates c) k'
          \<and> map_of (ioResponseHandlers (fst (CLOSE_PAGE c k))) k'
              = map_of (ioResponseHandlers c) k'
          \<and> map_of (ioClients (fst (CLOSE_PAGE c k))) k' = map_of (ioClients c) k')
    \<and> (\<forall>key. key \<notin> inline_keys_of c k \<longrightarrow>
          map_of (actionHandlers (fst (CLOSE_PAGE c k))) key = map_of (actionHandlers c) key)
    \<and> pendingIOCalls (fst (CLOSE_PAGE c k)) = pendingIOCalls c)"
  by (simp add: CLOSE_TRANSACTION_def closeTransaction_removes closeTransaction_frame
      CLOSE_PAGE_removes CLOSE_PAGE_frame)

theorem close_removes_exactly_own_entries_witness:
  "''k1'' \<in> inline_keys_of busy_client ''t1''
   \<and> map_of (pendingIOCalls busy_client) ''t1'' = Some ''{}''
   \<and> map_of (pendingIOCalls (fst (CLOSE_TRANSACTION busy_client ''t1''))) ''t1'' = None
   \<and> map_of (actionHandlers (fst (CLOSE_TRANSACTION busy_client ''t1''))) ''k1'' = None
   \<and> map_of (pendingIOCalls (fst (CLOSE_TRANSACTION busy_client ''t1''))) ''t2'' = Some ''[]''
   \<and> map_of (actionHandlers (fst (CLOSE_TRANSACTION busy_client ''t1''))) ''k2'' = Some 4
   \<and> ''k2'' \<in> inline_keys_of busy_client ''p1''
   \<and> ''p1'' \<in> openPages busy_client
   \<and> ''p1'' \<notin> openPages (fst (CLOSE_PAGE busy_client ''p1''))
   \<and> map_of (actionHandlers (fst (CLOSE_PAGE busy_client ''p1''))) ''k2'' = None
   \<and> ''p2'' \<in> openPages (fst (CLOSE_PAGE busy_client ''p1''))
   \<and> map_of (pendingPageLayouts (fst (CLOSE_PAGE busy_client ''p1''))) ''p2'' = Some ''[]''"
proof -
  have k1: "''k1'' \<in> inline_keys_of busy_client ''t1''"
    and k2: "''k2'' \<in> inline_keys_of busy_client ''p1''"
    and nk2: "''k2'' \<notin> inline_keys_of busy_client ''t1''"
    by (simp_all add: inline_keys_of_def busy_client_fields)
  have before: "map_of (pendingIOCalls busy_client) ''t1'' = Some ''{}''"
    "map_of (pendingIOCalls busy_client) ''t2'' = Some ''[]''"
    "map_of (actionHandlers busy_client) ''k2'' = Some 4"
    "''p1'' \<in> openPages busy_client" "''p2'' \<in> openPages busy_client"
    "map_of (pendingPageLayouts busy_client) ''p2'' = Some ''[]''"
    by (simp_all add: busy_client_fields)
  have ne: "''t2'' \<noteq> ''t1''" "''p2'' \<noteq> ''p1''" by simp_all
  show ?thesis
    using close_removes_exactly_own_entries [of busy_client "''t1''" "''p1''"]
      k1 k2 nk2 before ne
    by metis
qed

subsection \<open>Graceful shutdown\<close>

lemma closeTransaction_resolveShutdown:
  "resolveShutdown (fst (closeTransaction c t)) = resolveShutdown c"
  by (simp add: closeTransaction_def Let_def split: option.splits)

lemma closeTransaction_handler_keys:
  "fst ` set (ioResponseHandlers (fst (closeTransaction c t)))
     = fst ` set (ioResponseHandlers c) - {t}"
  by (simp add: closeTransaction_def Let_def keys_delete split: option.splits)

lemma closeTransaction_effects:
  "e \<in> set (snd (closeTransaction c t)) \<Longrightarrow> \<not> handler_invocation e \<and> \<not> success_reply e"
  by (auto simp: closeTransaction_def Let_def shutdown_timer_def handler_invocation_def
      success_reply_def split: option.splits if_splits)

lemma CLOSE_PAGE_resolveShutdown:
  "resolveShutdown (fst (CLOSE_PAGE c k)) = resolveShutdown c"
  by (simp add: CLOSE_PAGE_def Let_def split: option.splits)

lemma CLOSE_PAGE_handler_keys:
  "fst ` set (ioResponseHandlers (fst (CLOSE_PAGE c k)))
     = fst ` set (ioResponseHandlers c) - {k}"
  by (simp add: CLOSE_PAGE_def Let_def keys_delete split: option.splits)

lemma CLOSE_PAGE_effects:
  "e \<in> set (snd (CLOSE_PAGE c k)) \<Longrightarrow> \<not> handler_invocation e \<and> \<not> success_reply e"
  by (auto simp: CLOSE_PAGE_def Let_def shutdown_timer_def http_timer_def handler_invocation_def
      success_reply_def split: option.splits if_splits)

lemma action_settled_effects:
  "e \<in> set (action_settled c inputs out rpc) \<Longrightarrow> \<not> handler_invocation e \<and> \<not> success_reply e"
  by (auto simp: action_settled_def http_timer_def handler_invocation_def
      success_reply_def split: option.splits if_splits sum.splits)

lemma START_TRANSACTION_draining:
  "resolveShutdown c \<Longrightarrow> START_TRANSACTION c inputs = (c, [])"
  by (simp add: START_TRANSACTION_def)

lemma OPEN_PAGE_draining:
  "resolveShutdown c \<Longrightarrow> OPEN_PAGE c inputs = (c, [Replied (Reply_ERROR ''Host shutting down.'')])"
  by (simp add: OPEN_PAGE_def)

lemma step_draining:
  assumes "resolveShutdown c"
  shows "resolveShutdown (fst (step c e))
    \<and> fst ` set (ioResponseHandlers (fst (step c e))) \<subseteq> fst ` set (ioResponseHandlers c)
    \<and> (\<forall>x \<in> set (snd (step c e)). \<not> handler_invocation x \<and> \<not> success_reply x)"
proof (cases e)
  case (Start inputs)
  then show ?thesis using assms by (simp add: START_TRANSACTION_draining)
next
  case (Io_response parsed)
  then show ?thesis using assms
    by (auto simp: IO_RESPONSE_def handler_invocation_def success_reply_def split: option.splits)
next
  case (Close_transaction t)
  then show ?thesis using assms closeTransaction_effects [of _ c t]
    by (auto simp: CLOSE_TRANSACTION_def closeTransaction_resolveShutdown
        closeTransaction_handler_keys)
next
  case (Open_page inputs)
  then show ?thesis using assms
    by (simp add: OPEN_PAGE_draining handler_invocation_def success_reply_def)
next
  case (Close_page k)
  then show ?thesis using assms CLOSE_PAGE_effects [of _ c k]
    by (auto simp: CLOSE_PAGE_resolveShutdown CLOSE_PAGE_handler_keys)
next
  case (Action_settled inputs out rpc)
  then show ?thesis using assms action_settled_effects [of _ c inputs out rpc] by auto
next
  case (Action_finally inputs)
  then show ?thesis using assms closeTransaction_effects [of _ c "inputs_transactionId inputs"]
    by (auto simp: action_finally_def closeTransaction_resolveShutdown
        closeTransaction_handler_keys)
qed

lemma run_draining:
  "resolveShutdown c \<Longrightarrow>
     resolveShutdown (fst (run c events))
     \<and> fst ` set (ioResponseHandlers (fst (run c events))) \<subseteq> fst ` set (ioResponseHandlers c)
     \<and> (\<forall>x \<in> set (snd (run c events)). \<not> handler_invocation x \<and> \<not> success_reply x)"
proof (induction events arbitrary: c)
  case Nil
  then show ?case by simp
next
  case (Cons e events)
  obtain c1 effects1 where s: "step c e = (c1, effects1)" by (cases "step c e")
  obtain c2 effects2 where r: "run c1 events = (c2, effects2)" by (cases "run c1 events")
  have one: "resolveShutdown c1"
    "fst ` set (ioResponseHandlers c1) \<subseteq> fst ` set (ioResponseHandlers c)"
    "\<forall>x \<in> set effects1. \<not> handler_invocation x \<and> \<not> success_reply x"
    using step_draining [OF Cons.prems, of e] s by simp_all
  have rest: "resolveShutdown c2"
    "fst ` set (ioResponseHandlers c2) \<subseteq> fst ` set (ioResponseHandlers c1)"
    "\<forall>x \<in> set effects2. \<not> handler_invocation x \<and> \<not> success_reply x"
    using Cons.IH [OF one(1)] r by simp_all
  have keys: "fst ` set (ioResponseHandlers c2) \<subseteq> fst ` set (ioResponseHandlers c)"
    using one(2) rest(2) by (rule order_trans [rotated])
  show ?case using one(3) rest(1,3) keys s r by auto
qed

lemma safelyClose_waiting:
  "safelyClose c rpc = (c1, Inr Waiting_to_drain)
    \<Longrightarrow> c1 = c\<lparr> resolveShutdown := True \<rparr> \<and> ioResponseHandlers c \<noteq> []"
  by (auto simp: safelyClose_def split: sum.splits shutdown_response.splits if_splits)

text \<open>
  C7. Once \<^verbatim>\<open>safelyClose\<close> has sent \<^verbatim>\<open>BEGIN_HOST_SHUTDOWN\<close> and waits for
  the handlers to drain, then after any run of inbound calls and completions of
  actions a \<^verbatim>\<open>START_TRANSACTION\<close> is dropped (the state is unchanged, no handler
  is registered or invoked) and an \<^verbatim>\<open>OPEN_PAGE\<close> is answered with an error and
  runs no page handler; the run itself invokes no handler, answers no
  \<^verbatim>\<open>OPEN_PAGE\<close> with success and registers no io-response handler.
\<close>

theorem draining_refuses_new_work:
  assumes "safelyClose c rpc = (c1, Inr Waiting_to_drain)"
  shows "START_TRANSACTION (fst (run c1 events)) inputs = (fst (run c1 events), [])
    \<and> OPEN_PAGE (fst (run c1 events)) page_inputs
        = (fst (run c1 events), [Replied (Reply_ERROR ''Host shutting down.'')])
    \<and> (\<forall>x \<in> set (snd (run c1 events)). \<not> handler_invocation x \<and> \<not> success_reply x)
    \<and> fst ` set (ioResponseHandlers (fst (run c1 events))) \<subseteq> fst ` set (ioResponseHandlers c)"
proof -
  have c1: "c1 = c\<lparr> resolveShutdown := True \<rparr>" using safelyClose_waiting [OF assms] by simp
  then have d: "resolveShutdown c1" by simp
  have keys: "ioResponseHandlers c1 = ioResponseHandlers c" using c1 by simp
  show ?thesis
    using run_draining [OF d, of events] keys
    by (simp add: START_TRANSACTION_draining OPEN_PAGE_draining)
qed

theorem draining_refuses_new_work_witness:
  "safelyClose busy_client shutdown_accepted
     = (busy_client\<lparr> resolveShutdown := True \<rparr>, Inr Waiting_to_drain)
   \<and> snd (START_TRANSACTION busy_client start_t3) = [Action_handler_invoked ''t3'' 1]
   \<and> run (busy_client\<lparr> resolveShutdown := True \<rparr>) [Start start_t3, Open_page open_p1]
       = (busy_client\<lparr> resolveShutdown := True \<rparr>,
          [Replied (Reply_ERROR ''Host shutting down.'')])
   \<and> START_TRANSACTION (busy_client\<lparr> resolveShutdown := True \<rparr>) start_t3
       = (busy_client\<lparr> resolveShutdown := True \<rparr>, [])
   \<and> OPEN_PAGE (busy_client\<lparr> resolveShutdown := True \<rparr>) open_p1
       = (busy_client\<lparr> resolveShutdown := True \<rparr>,
          [Replied (Reply_ERROR ''Host shutting down.'')])"
proof -
  have h: "safelyClose busy_client shutdown_accepted
     = (busy_client\<lparr> resolveShutdown := True \<rparr>, Inr Waiting_to_drain)"
    by (simp add: safelyClose_def send_returns shutdown_accepted_def busy_client_settings
        busy_client_fields)
  have before: "snd (START_TRANSACTION busy_client start_t3) = [Action_handler_invoked ''t3'' 1]"
    by (simp add: START_TRANSACTION_def busy_client_settings busy_client_fields start_t3_def)
  have r: "run (busy_client\<lparr> resolveShutdown := True \<rparr>) [Start start_t3, Open_page open_p1]
       = (busy_client\<lparr> resolveShutdown := True \<rparr>,
          [Replied (Reply_ERROR ''Host shutting down.'')])"
    by (simp add: START_TRANSACTION_def OPEN_PAGE_def)
  show ?thesis
    using draining_refuses_new_work [OF h, of "[Start start_t3, Open_page open_p1]" start_t3 open_p1]
      h before r
    by simp
qed

subsection \<open>Starting and completing a transaction\<close>






lemma closeTransaction_other_handler:
  "t' \<noteq> t \<Longrightarrow> map_of (ioResponseHandlers (fst (closeTransaction c t'))) t
      = map_of (ioResponseHandlers c) t"
  by (simp add: closeTransaction_frame)









lemma started_twice:
  "START_TRANSACTION (fst (START_TRANSACTION serving_client start_t1)) start_t1
     = (fst (START_TRANSACTION serving_client start_t1), [])"
  by (simp add: START_TRANSACTION_def serving_client_fields start_t1_def)



subsection \<open>Coalesced page sends\<close>

















subsection \<open>Declaring the host\<close>










subsection \<open>Log lines\<close>

text \<open>The loop of \<^verbatim>\<open>join\<close> computes the line joined with single spaces.\<close>

lemma join_from_spec:
  "join_from (js '' '') parts k R
     = (if parts = [] then R
        else (if k > 0 then R @ js '' '' else R) @ spec_join_spaces (map element_text parts))"
proof (induction parts arbitrary: k R)
  case Nil
  show ?case by simp
next
  case (Cons p parts)
  let ?R = "(if k > 0 then R @ js '' '' else R) @ element_text p"
  have step: "join_from (js '' '') (p # parts) k R = join_from (js '' '') parts (k + 1) ?R"
    by simp
  show ?case
  proof (cases parts)
    case Nil
    then show ?thesis by simp
  next
    case (Cons q rest)
    have "join_from (js '' '') parts (k + 1) ?R
        = (?R @ js '' '') @ spec_join_spaces (map element_text parts)"
      using Cons.IH [of "k + 1" ?R] Cons by simp
    then show ?thesis unfolding step using Cons by simp
  qed
qed

lemma join_spec: "join (js '' '') parts = spec_join_spaces (map element_text parts)"
  by (simp add: join_def join_from_spec)

lemma map_args_stringified:
  "(\<forall>v. Other v \<in> set args \<longrightarrow> stringify v = Inr (json v))
    \<Longrightarrow> map_args (log_arg stringify) args = Inr (map (log_arg_text json) args)"
  by (induction args) (auto simp: log_arg_def log_arg_text_def split: arg.splits)

lemma spec_parts: "map element_text (map (log_arg_text json) args) = map (spec_log_part json) args"
  by (induction args)
     (auto simp: spec_log_part_def log_arg_text_def element_text_def split: arg.splits)

text \<open>
  A line of at most 10000 characters is sent as it is; a longer one keeps its first
  10000 characters, followed by the advisory.
\<close>

lemma spec_truncate_short: "length line \<le> 10000 \<Longrightarrow> spec_truncate line = line"
  by (simp add: spec_truncate_def)

lemma spec_truncate_long:
  "length line > 10000
    \<Longrightarrow> take 10000 (spec_truncate line) = take 10000 line
      \<and> drop 10000 (spec_truncate line) = advisory"
  by (simp add: spec_truncate_def)

text \<open>
  C9. For a non-empty argument list whose values \<^verbatim>\<open>JSON.stringify\<close> accepts, the
  one log call \<^verbatim>\<open>#sendLog\<close> makes carries the line of the specification:
  \<^verbatim>\<open>undefined\<close> becomes the literal \<open>undefined\<close>, a string is kept, any other
  value is stringified, the results are joined with single spaces, and a line of more
  than 10000 characters is cut to its first 10000 characters with the advisory appended.
\<close>

theorem log_line_as_specified:
  assumes "args \<noteq> []" and "\<forall>v. Other v \<in> set args \<longrightarrow> stringify v = Inr (json v)"
  shows "sendLog c stringify t index args
     = Inr [if getClientHandlers (config c) then Demo_LOG t (spec_log_line json args) index
            else Send_LOG t (spec_log_line json args) index]"
proof -
  have parts: "map_args (log_arg stringify) args = Inr (map (log_arg_text json) args)"
    using assms(2) by (rule map_args_stringified)
  have data: "join (js '' '') (map (log_arg_text json) args)
      = spec_join_spaces (map (spec_log_part json) args)"
    by (simp only: join_spec spec_parts)
  show ?thesis
    using assms(1)
    by (simp add: sendLog_def parts data spec_log_line_def spec_truncate_def Let_def)
qed

lemma length_js: "length (js s) = length s"
  by (simp add: js_def)

theorem log_line_as_specified_witness:
  "sendLog serving_client (\<lambda>v. Inr (digit_json v)) ''t1'' 0 short_args
     = Inr [Send_LOG ''t1'' (js ''undefined'' @ js '' '' @ js ''ab'' @ js '' '' @ [0x31]) 0]
   \<and> sendLog serving_client (\<lambda>v. Inr (digit_json v)) ''t1'' 1 long_args
     = Inr [Send_LOG ''t1'' (replicate 10000 0x61 @ advisory) 1]"
proof -
  have a: "short_args \<noteq> []" "long_args \<noteq> []"
    by (simp_all add: short_args_def long_args_def)
  have s: "\<forall>v. Other v \<in> set short_args \<longrightarrow> (\<lambda>v. Inr (digit_json v)) v = Inr (digit_json v)"
    "\<forall>v. Other v \<in> set long_args \<longrightarrow> (\<lambda>v. Inr (digit_json v)) v = Inr (digit_json v)"
    by simp_all
  have l1: "spec_log_line digit_json short_args
      = js ''undefined'' @ js '' '' @ js ''ab'' @ js '' '' @ [0x31]"
    by (simp add: spec_log_line_def spec_truncate_def short_args_def spec_log_part_def
        digit_json_def length_js)
  have l2: "spec_log_line digit_json long_args = replicate 10000 0x61 @ advisory"
    by (simp add: spec_log_line_def spec_truncate_def long_args_def spec_log_part_def)
  show ?thesis
    using log_line_as_specified [OF a(1) s(1), of serving_client "''t1''" 0]
      log_line_as_specified [OF a(2) s(2), of serving_client "''t1''" 1]
    by (simp add: l1 l2 serving_client_fields)
qed

end
